theory Spec2Isabelle
  imports Main "HOL-Library.Sublist" "HOL-Library.Code_Target_Nat"
begin

section \<open>Python strings\<close>

text \<open>
  A Python \<open>str\<close> is the list of its Unicode code points; \<open>cp\<close> turns an ASCII literal
  into that form. White space is Unicode's, as \<open>str.isspace\<close>, \<open>str.strip\<close>,
  \<open>str.split\<close> and the class \<open>\s\<close> of regular expressions see it. The tables of the
  Unicode character database that are large and depend on its version are a parameter
  \<open>ucd\<close>: the value of a decimal digit beyond ASCII, the lower case of a character
  beyond ASCII at a position of a string (the string is given because a capital sigma is
  lowered according to its place in the word), and the title case of a string that has
  characters beyond ASCII. On ASCII characters everything is computed here.
\<close>

type_synonym pystr = "nat list"

definition cp :: "string \<Rightarrow> pystr" where
  "cp s = map of_char s"

record ucd =
  decimal_value :: "nat \<Rightarrow> nat option"
  lower_at :: "pystr \<Rightarrow> nat \<Rightarrow> pystr"
  title_of :: "pystr \<Rightarrow> pystr"

definition newline :: nat where
  "newline = 10"

definition py_isspace :: "nat \<Rightarrow> bool" where
  "py_isspace c = (c \<in> set [9, 10, 11, 12, 13, 28, 29, 30, 31, 32, 133, 160, 5760,
     8192, 8193, 8194, 8195, 8196, 8197, 8198, 8199, 8200, 8201, 8202,
     8232, 8233, 8239, 8287, 12288])"

definition is_ascii :: "nat \<Rightarrow> bool" where
  "is_ascii c = (c < 128)"

text \<open>A decimal digit (\<open>\d\<close>, and what \<open>int\<close> accepts) and its value.\<close>

definition py_isdecimal :: "ucd \<Rightarrow> nat \<Rightarrow> bool" where
  "py_isdecimal U c = ((48 \<le> c \<and> c \<le> 57) \<or> (\<not> is_ascii c \<and> decimal_value U c \<noteq> None))"

definition digit_value :: "ucd \<Rightarrow> nat \<Rightarrow> nat" where
  "digit_value U c =
     (if 48 \<le> c \<and> c \<le> 57 then c - 48
      else case decimal_value U c of Some d \<Rightarrow> d | None \<Rightarrow> 0)"

definition lower_ascii :: "nat \<Rightarrow> nat" where
  "lower_ascii c = (if 65 \<le> c \<and> c \<le> 90 then c + 32 else c)"

definition upper_ascii :: "nat \<Rightarrow> nat" where
  "upper_ascii c = (if 97 \<le> c \<and> c \<le> 122 then c - 32 else c)"

text \<open>\<open>s.lower()\<close>\<close>

definition py_lower :: "ucd \<Rightarrow> pystr \<Rightarrow> pystr" where
  "py_lower U s =
     concat (map (\<lambda>i. if is_ascii (s ! i) then [lower_ascii (s ! i)] else lower_at U s i)
                 [0 ..< length s])"

text \<open>\<open>s.strip()\<close>\<close>

definition py_strip :: "pystr \<Rightarrow> pystr" where
  "py_strip s = rev (dropWhile py_isspace (rev (dropWhile py_isspace s)))"

text \<open>
  \<open>s.split(None, maxsplit)\<close>: words separated by runs of white space; once \<open>maxsplit\<close>
  words have been cut off, what is left (without its leading white space) is the last
  element.
\<close>

fun split_whitespace :: "nat \<Rightarrow> pystr \<Rightarrow> pystr list" where
  "split_whitespace 0 s =
     (let r = dropWhile py_isspace s in if r = [] then [] else [r])"
| "split_whitespace (Suc n) s =
     (let r = dropWhile py_isspace s in
      if r = [] then []
      else takeWhile (\<lambda>c. \<not> py_isspace c) r
             # split_whitespace n (dropWhile (\<lambda>c. \<not> py_isspace c) r))"

text \<open>\<open>s.split(sep)\<close> for a separator of one character: empty pieces are kept.\<close>

fun split_on :: "nat \<Rightarrow> pystr \<Rightarrow> pystr list" where
  "split_on sep [] = [[]]"
| "split_on sep (c # cs) =
     (if c = sep then [] # split_on sep cs
      else case split_on sep cs of [] \<Rightarrow> [[c]] | p # ps \<Rightarrow> (c # p) # ps)"

text \<open>\<open>sep.join(pieces)\<close>\<close>

fun join :: "pystr \<Rightarrow> pystr list \<Rightarrow> pystr" where
  "join sep [] = []"
| "join sep [p] = p"
| "join sep (p # q # ps) = p @ sep @ join sep (q # ps)"

text \<open>
  \<open>s.replace(old, new)\<close>: every occurrence of \<open>old\<close>, found from left to right without
  overlap, is replaced. For an empty \<open>old\<close> Python puts \<open>new\<close> around every character.
\<close>

function py_replace :: "pystr \<Rightarrow> pystr \<Rightarrow> pystr \<Rightarrow> pystr" where
  "py_replace old new s =
     (if old = [] then new @ concat (map (\<lambda>c. c # new) s)
      else if s = [] then []
      else if prefix old s then new @ py_replace old new (drop (length old) s)
      else hd s # py_replace old new (tl s))"
  by pat_completeness auto
termination
  by (relation "measure (\<lambda>(old, new, s). length s)") auto

declare py_replace.simps [simp del]

text \<open>The operator \<open>sub in s\<close> on strings.\<close>

fun contains :: "pystr \<Rightarrow> pystr \<Rightarrow> bool" where
  "contains sub [] = (sub = [])"
| "contains sub (c # cs) = (prefix sub (c # cs) \<or> contains sub cs)"

text \<open>\<open>int(digits)\<close> on a string of decimal digits, and \<open>str(n)\<close> on a natural number.\<close>

definition int_of_digits :: "ucd \<Rightarrow> pystr \<Rightarrow> nat" where
  "int_of_digits U ds = foldl (\<lambda>n c. 10 * n + digit_value U c) 0 ds"

fun str_nat :: "nat \<Rightarrow> pystr" where
  "str_nat n = (if n < 10 then [48 + n] else str_nat (n div 10) @ [48 + n mod 10])"

text \<open>
  \<open>s.title()\<close>: on an ASCII string, a letter that follows a letter is put in lower case
  and any other letter in upper case.
\<close>

definition is_cased :: "nat \<Rightarrow> bool" where
  "is_cased c = ((65 \<le> c \<and> c \<le> 90) \<or> (97 \<le> c \<and> c \<le> 122))"

fun title_from :: "bool \<Rightarrow> pystr \<Rightarrow> pystr" where
  "title_from prev [] = []"
| "title_from prev (c # cs) =
     (if is_cased c then (if prev then lower_ascii c else upper_ascii c) # title_from True cs
      else c # title_from False cs)"

definition py_title :: "ucd \<Rightarrow> pystr \<Rightarrow> pystr" where
  "py_title U s = (if list_all is_ascii s then title_from False s else title_of U s)"

section \<open>Regular expressions\<close>

text \<open>
  The six deadline patterns use literals, the classes \<open>\s\<close>, \<open>\d\<close> and \<open>.\<close>, bounded and
  unbounded repetition of a class (greedy, and lazy in \<open>.+?\<close>), alternation, an optional
  letter and the anchor \<open>$\<close>. Matching is Python's backtracking search with the flag
  \<open>IGNORECASE\<close>: \<open>residuals U r s\<close> lists, in the order in which backtracking tries them,
  what is left of \<open>s\<close> after each way of matching \<open>r\<close> at its start.

  The literals of the patterns are ASCII. Under \<open>IGNORECASE\<close> a character of the text
  matches a letter of a pattern when it is that letter in either case; besides, the
  dotted capital I (U+0130) and the dotless i (U+0131) match \<open>i\<close>, the Kelvin sign
  (U+212A) matches \<open>k\<close> and the long s (U+017F) matches \<open>s\<close>.
\<close>

definition ci_match :: "nat \<Rightarrow> nat \<Rightarrow> bool" where
  "ci_match p c =
     (lower_ascii c = lower_ascii p
      \<or> (lower_ascii p = 105 \<and> (c = 304 \<or> c = 305))
      \<or> (lower_ascii p = 107 \<and> c = 8490)
      \<or> (lower_ascii p = 115 \<and> c = 383))"

datatype cclass = Space | Digit | AnyChar

fun in_class :: "ucd \<Rightarrow> cclass \<Rightarrow> nat \<Rightarrow> bool" where
  "in_class U Space c = py_isspace c"
| "in_class U Digit c = py_isdecimal U c"
| "in_class U AnyChar c = (c \<noteq> newline)"

datatype regex =
    Lit pystr
  | Rep cclass nat "nat option"
  | RepLazy cclass nat "nat option"
  | Cat regex regex
  | Alt regex regex
  | Opt regex
  | EndAnchor

definition rep_counts :: "ucd \<Rightarrow> cclass \<Rightarrow> nat \<Rightarrow> nat option \<Rightarrow> pystr \<Rightarrow> nat list" where
  "rep_counts U k lo hi s =
     (let avail = length (takeWhile (in_class U k) s);
          top = (case hi of None \<Rightarrow> avail | Some b \<Rightarrow> min b avail)
      in [lo ..< Suc top])"

fun residuals :: "ucd \<Rightarrow> regex \<Rightarrow> pystr \<Rightarrow> pystr list" where
  "residuals U (Lit l) s =
     (if length l \<le> length s \<and> list_all2 ci_match l (take (length l) s)
      then [drop (length l) s] else [])"
| "residuals U (Rep k lo hi) s = map (\<lambda>i. drop i s) (rev (rep_counts U k lo hi s))"
| "residuals U (RepLazy k lo hi) s = map (\<lambda>i. drop i s) (rep_counts U k lo hi s)"
| "residuals U (Cat r1 r2) s = concat (map (residuals U r2) (residuals U r1 s))"
| "residuals U (Alt r1 r2) s = residuals U r1 s @ residuals U r2 s"
| "residuals U (Opt r) s = residuals U r s @ [s]"
| "residuals U EndAnchor s = (if s = [] \<or> s = [newline] then [s] else [])"

text \<open>
  \<open>re.search(r, s, re.IGNORECASE)\<close>: the leftmost position at which \<open>r\<close> matches, and there
  the first match that backtracking finds; the result is \<open>match.group(0)\<close>.
\<close>

fun re_search :: "ucd \<Rightarrow> regex \<Rightarrow> pystr \<Rightarrow> pystr option" where
  "re_search U r [] = (case residuals U r [] of [] \<Rightarrow> None | rest # _ \<Rightarrow> Some [])"
| "re_search U r (c # cs) =
     (case residuals U r (c # cs) of
        [] \<Rightarrow> re_search U r cs
      | rest # _ \<Rightarrow> Some (take (length (c # cs) - length rest) (c # cs)))"

fun alts :: "regex \<Rightarrow> regex list \<Rightarrow> regex" where
  "alts r [] = r"
| "alts r (q # qs) = Alt r (alts q qs)"

fun cats :: "regex \<Rightarrow> regex list \<Rightarrow> regex" where
  "cats r [] = r"
| "cats r (q # qs) = Cat r (cats q qs)"

definition lit :: "string \<Rightarrow> regex" where
  "lit s = Lit (cp s)"

definition deadline_patterns :: "regex list" where
  "deadline_patterns =
    [ cats (alts (lit ''by'') [lit ''due'', lit ''deadline'', lit ''until''])
        [Rep Space 1 None, RepLazy AnyChar 1 None, Alt (Rep Space 1 None) EndAnchor],
      alts (lit ''tomorrow'') [lit ''today'', lit ''next week'', lit ''next month''],
      cats (Rep Digit 1 (Some 2))
        [lit ''/'', Rep Digit 1 (Some 2), lit ''/'', Rep Digit 4 (Some 4)],
      cats (Rep Digit 1 (Some 2)) [lit ''/'', Rep Digit 1 (Some 2)],
      cats (lit ''in'')
        [Rep Space 1 None, Rep Digit 1 None, Rep Space 1 None, lit ''day'', Opt (lit ''s'')],
      alts (lit ''monday'')
        [lit ''tuesday'', lit ''wednesday'', lit ''thursday'', lit ''friday'',
         lit ''saturday'', lit ''sunday''] ]"

section \<open>Dates and times\<close>

text \<open>
  A \<open>datetime\<close> holds its date as the proleptic Gregorian ordinal (\<open>toordinal()\<close>: day 1 is
  0001-01-01 and the last day, 9999-12-31, is 3652059) and its time of day in four fields.
\<close>

record datetime =
  ordinal :: nat
  hour :: nat
  minute :: nat
  second :: nat
  microsecond :: nat

definition max_ordinal :: nat where
  "max_ordinal = 3652059"

text \<open>
  \<open>d + timedelta(days=n)\<close> for \<open>n \<ge> 0\<close>. Python raises \<open>OverflowError\<close> when the
  \<open>timedelta\<close> has more than 999999999 days or the sum lies after 9999-12-31: the
  result is then \<open>None\<close>.
\<close>

definition add_days :: "datetime \<Rightarrow> nat \<Rightarrow> datetime option" where
  "add_days d n =
     (if n \<le> 999999999 \<and> ordinal d + n \<le> max_ordinal
      then Some (d\<lparr>ordinal := ordinal d + n\<rparr>) else None)"

text \<open>The standard library's conversion of an ordinal to year, month and day.\<close>

definition days_in_month :: "nat list" where
  "days_in_month = [0, 31, 28, 31, 30, 31, 30, 31, 31, 30, 31, 30, 31]"

definition days_before_month :: "nat list" where
  "days_before_month = [0, 0, 31, 59, 90, 120, 151, 181, 212, 243, 273, 304, 334]"

definition ord2ymd :: "nat \<Rightarrow> nat \<times> nat \<times> nat" where
  "ord2ymd n0 =
     (let n = n0 - 1;
          n400 = n div 146097; n = n mod 146097;
          n100 = n div 36524; n = n mod 36524;
          n4 = n div 1461; n = n mod 1461;
          n1 = n div 365; n = n mod 365;
          year = n400 * 400 + 1 + n100 * 100 + n4 * 4 + n1
      in if n1 = 4 \<or> n100 = 4 then (year - 1, 12, 31)
         else
           let leapyear = (n1 = 3 \<and> (n4 \<noteq> 24 \<or> n100 = 3));
               month = (n + 50) div 32;
               preceding = days_before_month ! month + (if month > 2 \<and> leapyear then 1 else 0)
           in if preceding > n
              then let month = month - 1;
                       preceding = preceding
                         - (days_in_month ! month + (if month = 2 \<and> leapyear then 1 else 0))
                   in (year, month, n - preceding + 1)
              else (year, month, n - preceding + 1))"

definition pad2 :: "nat \<Rightarrow> pystr" where
  "pad2 n = (if n < 10 then 48 # str_nat n else str_nat n)"

text \<open>
  \<open>d.strftime('%Y-%m-%d %H:%M')\<close> and \<open>d.strftime('%m/%d')\<close>; the year is written as
  the C library writes it, without padding.
\<close>

definition strftime_long :: "datetime \<Rightarrow> pystr" where
  "strftime_long d =
     (case ord2ymd (ordinal d) of (y, m, dd) \<Rightarrow>
        str_nat y @ cp ''-'' @ pad2 m @ cp ''-'' @ pad2 dd @ cp '' '' @ pad2 (hour d)
          @ cp '':'' @ pad2 (minute d))"

definition strftime_short :: "datetime \<Rightarrow> pystr" where
  "strftime_short d = (case ord2ymd (ordinal d) of (y, m, dd) \<Rightarrow> pad2 m @ cp ''/'' @ pad2 dd)"

section \<open>What a command reads from outside\<close>

text \<open>
  While it handles one command the program reads, besides its state: the identifier
  drawn by \<open>generate_task_id\<close> (the first eight characters of a random UUID), the clock
  (read once in the extractor and once more in \<open>create_task\<close>), the date parser of the
  library \<open>dateutil\<close>, which is not part of the repository (\<open>None\<close> when it raises), the
  Unicode tables, and the interpreter's limit on the number of digits that \<open>int\<close>
  converts (\<open>sys.get_int_max_str_digits()\<close>: 4300 unless configured, 0 for no limit).
\<close>

record env =
  uuid8 :: pystr
  now :: datetime
  now_created :: datetime
  dateutil_parse :: "pystr \<Rightarrow> datetime option"
  unicode :: ucd
  int_max_str_digits :: nat

text \<open>The form of every identifier \<open>str(uuid.uuid4())[:8]\<close>: eight hexadecimal digits.\<close>

definition is_hex8 :: "pystr \<Rightarrow> bool" where
  "is_hex8 s = (length s = 8 \<and> (\<forall>c \<in> set s. c \<in> set (cp ''0123456789abcdef'')))"

definition generate_task_id :: "env \<Rightarrow> pystr" where
  "generate_task_id e = uuid8 e"

section \<open>The extractor\<close>

text \<open>The loop over the patterns: the first one that matches decides the fragment.\<close>

fun first_match :: "ucd \<Rightarrow> regex list \<Rightarrow> pystr \<Rightarrow> pystr option" where
  "first_match U [] text = None"
| "first_match U (p # ps) text =
     (case re_search U p text of Some m \<Rightarrow> Some m | None \<Rightarrow> first_match U ps text)"

text \<open>
  The body of the \<open>try\<close>: every exception (no integer in the fragment, more digits than
  \<open>int\<close> converts, a date out of range, a failure of the date parser) leaves the
  deadline \<open>None\<close>.
\<close>

definition resolve_deadline :: "env \<Rightarrow> pystr \<Rightarrow> datetime option" where
  "resolve_deadline e deadline_text =
     (let low = py_lower (unicode e) deadline_text in
      if contains (cp ''tomorrow'') low then add_days (now e) 1
      else if contains (cp ''today'') low then Some ((now e)\<lparr>hour := 23, minute := 59\<rparr>)
      else if contains (cp ''next week'') low then add_days (now e) 7
      else if contains (cp ''next month'') low then add_days (now e) 30
      else if contains (cp ''in'') low \<and> contains (cp ''day'') low then
        (case re_search (unicode e) (Rep Digit 1 None) deadline_text of
           None \<Rightarrow> None
         | Some ds \<Rightarrow>
             if 0 < int_max_str_digits e \<and> int_max_str_digits e < length ds then None
             else add_days (now e) (int_of_digits (unicode e) ds))
      else dateutil_parse e deadline_text)"

text \<open>The text from which title and description are taken (source lines 86 to 88).\<close>

definition remainder :: "ucd \<Rightarrow> pystr \<Rightarrow> pystr" where
  "remainder U text =
     (case first_match U deadline_patterns text of
        None \<Rightarrow> text
      | Some deadline_text \<Rightarrow>
          if deadline_text \<noteq> [] then py_strip (py_replace deadline_text [] text) else text)"

text \<open>Title and description of a remainder (source lines 90 to 103).\<close>

definition title_description :: "pystr \<Rightarrow> pystr \<times> pystr option" where
  "title_description text =
     (let lines = split_on newline text;
          title = py_strip (hd lines);
          sentences = split_on 46 text
      in if length lines > 1 \<or> length sentences > 1 then
           if length lines > 1 then (title, Some (py_strip (join [newline] (tl lines))))
           else if length sentences > 1 then
             (py_strip (hd sentences), Some (py_strip (join [46] (tl sentences))))
           else (title, None)
         else (title, None))"

record task_data =
  data_title :: pystr
  data_description :: "pystr option"
  data_deadline :: "datetime option"

definition parse_natural_language :: "env \<Rightarrow> pystr \<Rightarrow> task_data" where
  "parse_natural_language e text =
     (let deadline = (case first_match (unicode e) deadline_patterns text of
                        None \<Rightarrow> None
                      | Some deadline_text \<Rightarrow> resolve_deadline e deadline_text);
          text = remainder (unicode e) text;
          (title, description) = title_description text
      in \<lparr>data_title = (if title \<noteq> [] then title else text),
          data_description = description,
          data_deadline = deadline\<rparr>)"

section \<open>Tasks and the store\<close>

record task =
  task_id :: pystr
  title :: pystr
  description :: "pystr option"
  deadline :: "datetime option"
  status :: pystr
  created_at :: datetime
  subtasks :: "pystr list"

text \<open>The two dictionaries of the module: \<open>tasks_db\<close> and \<open>user_tasks\<close>.\<close>

record state =
  tasks_db :: "pystr \<rightharpoonup> task"
  user_tasks :: "pystr \<rightharpoonup> pystr list"

definition initial_state :: state where
  "initial_state = \<lparr>tasks_db = Map.empty, user_tasks = Map.empty\<rparr>"

definition create_task :: "env \<Rightarrow> pystr \<Rightarrow> task_data \<Rightarrow> state \<Rightarrow> task \<times> state" where
  "create_task e user_id td s =
     (let tid = generate_task_id e;
          t = \<lparr>task_id = tid, title = data_title td, description = data_description td,
               deadline = data_deadline td, status = cp ''pending'',
               created_at = now_created e, subtasks = []\<rparr>;
          db = (tasks_db s)(tid \<mapsto> t);
          ut = (if user_tasks s user_id = None then (user_tasks s)(user_id \<mapsto> [])
                else user_tasks s);
          ut = ut(user_id \<mapsto> the (ut user_id) @ [tid])
      in (t, \<lparr>tasks_db = db, user_tasks = ut\<rparr>))"

section \<open>Replies\<close>

text \<open>The emoji of the replies.\<close>

definition e_check :: pystr where
  "e_check = [0x2705]"

definition e_memo :: pystr where
  "e_memo = [0x1F4DD]"

definition e_clipboard :: pystr where
  "e_clipboard = [0x1F4CB]"

definition e_alarm :: pystr where
  "e_alarm = [0x23F0]"

definition e_chart :: pystr where
  "e_chart = [0x1F4CA]"

definition e_clock :: pystr where
  "e_clock = [0x1F550]"

definition e_mailbox :: pystr where
  "e_mailbox = [0x1F4ED]"

definition e_hourglass :: pystr where
  "e_hourglass = [0x23F3]"

definition e_arrows :: pystr where
  "e_arrows = [0x1F504]"

definition e_question :: pystr where
  "e_question = [0x2753]"

definition e_bulb :: pystr where
  "e_bulb = [0x1F4A1]"

definition e_robot :: pystr where
  "e_robot = [0x1F916]"

definition e_bullet :: pystr where
  "e_bullet = [0x2022]"

definition e_cross :: pystr where
  "e_cross = [0x274C]"

definition e_party :: pystr where
  "e_party = [0x1F389]"

definition e_bin :: pystr where
  "e_bin = [0x1F5D1, 0xFE0F]"

datatype visibility = ephemeral | in_channel

record response =
  response_type :: visibility
  response_text :: pystr

definition format_task_response :: "ucd \<Rightarrow> task \<Rightarrow> pystr" where
  "format_task_response U t =
     e_check @ cp '' **Task Created:** '' @ title t @ [newline]
     @ e_memo @ cp '' **ID:** '' @ task_id t @ [newline]
     @ (case description t of
          None \<Rightarrow> []
        | Some d \<Rightarrow>
            if d \<noteq> [] then e_clipboard @ cp '' **Description:** '' @ d @ [newline] else [])
     @ (case deadline t of
          None \<Rightarrow> []
        | Some d \<Rightarrow> e_alarm @ cp '' **Deadline:** '' @ strftime_long d @ [newline])
     @ e_chart @ cp '' **Status:** '' @ py_title U (py_replace [95] [32] (status t))
     @ [newline]
     @ e_clock @ cp '' **Created:** '' @ strftime_long (created_at t)"

definition status_emoji :: "pystr \<Rightarrow> pystr" where
  "status_emoji st =
     (if st = cp ''pending'' then e_hourglass
      else if st = cp ''in_progress'' then e_arrows
      else if st = cp ''completed'' then e_check
      else e_question)"

text \<open>One turn of the loop of \<open>list_user_tasks\<close>, and the whole function.\<close>

definition list_step :: "state \<Rightarrow> pystr \<Rightarrow> pystr \<Rightarrow> pystr" where
  "list_step s resp tid =
     (case tasks_db s tid of
        None \<Rightarrow> resp
      | Some t \<Rightarrow>
          resp @ status_emoji (status t) @ cp '' **'' @ task_id t @ cp ''** - '' @ title t
            @ (case deadline t of None \<Rightarrow> []
               | Some d \<Rightarrow> cp '' (Due: '' @ strftime_short d @ cp '')'')
            @ [newline])"

definition list_header :: "nat \<Rightarrow> pystr" where
  "list_header n =
     e_clipboard @ cp '' **Your Tasks ('' @ str_nat n @ cp ''):**'' @ [newline, newline]"

definition list_footer :: pystr where
  "list_footer = [newline] @ e_bulb
     @ cp '' Use `/task show <task_id>` to see details or ''
     @ cp ''`/task update <task_id> <status>` to update status.''"

definition list_empty :: pystr where
  "list_empty = e_mailbox
     @ cp '' You don't have any tasks yet! ''
     @ cp ''Use `/task create <task description>` to create one.''"

definition list_user_tasks :: "pystr \<Rightarrow> state \<Rightarrow> pystr" where
  "list_user_tasks user_id s =
     (case user_tasks s user_id of
        None \<Rightarrow> list_empty
      | Some ids \<Rightarrow>
          if ids = [] then list_empty
          else foldl (list_step s) (list_header (length ids)) ids @ list_footer)"

definition help_text :: pystr where
  "help_text =
     e_robot @ cp '' **Slack Productivity Bot Help**'' @ [newline, newline]
     @ cp ''**Commands:**'' @ [newline]
     @ e_bullet @ cp '' `/task create <description>` - Create a new task'' @ [newline]
     @ e_bullet @ cp '' `/task list` - List all your tasks'' @ [newline]
     @ e_bullet @ cp '' `/task show <task_id>` - Show task details'' @ [newline]
     @ e_bullet
     @ cp '' `/task update <task_id> <status>` - Update task status ''
     @ cp ''(pending/in_progress/completed)''
     @ [newline]
     @ e_bullet @ cp '' `/task delete <task_id>` - Delete a task'' @ [newline, newline]
     @ cp ''**Examples:**'' @ [newline]
     @ e_bullet @ cp '' `/task create Review project proposal by tomorrow`'' @ [newline]
     @ e_bullet @ cp '' `/task create Set up meeting with client next week`'' @ [newline]
     @ e_bullet @ cp '' `/task update abc123 completed`''"

definition usage_create :: pystr where
  "usage_create = e_cross
     @ cp '' Please provide a task description. ''
     @ cp ''Example: `/task create Review documents by Friday`''"

definition usage_show :: pystr where
  "usage_show = e_cross @ cp '' Please provide a task ID. Example: `/task show abc123`''"

definition usage_update :: pystr where
  "usage_update = e_cross
     @ cp '' Please provide task ID and status. Example: `/task update abc123 completed`''"

definition usage_delete :: pystr where
  "usage_delete = e_cross @ cp '' Please provide a task ID. Example: `/task delete abc123`''"

definition not_found :: "pystr \<Rightarrow> pystr" where
  "not_found tid = e_cross @ cp '' Task '' @ [39] @ tid @ [39] @ cp '' not found.''"

definition bad_status :: pystr where
  "bad_status = e_cross @ cp '' Status must be one of: pending, in_progress, completed''"

definition unknown_action :: "pystr \<Rightarrow> pystr" where
  "unknown_action action = e_cross @ cp '' Unknown action '' @ [39] @ action @ [39]
     @ cp ''. Use `/task` without parameters to see help.''"

definition status_message :: "pystr \<Rightarrow> pystr" where
  "status_message st =
     (if st = cp ''pending'' then e_hourglass @ cp '' Task moved to pending''
      else if st = cp ''in_progress'' then e_arrows @ cp '' Task is now in progress''
      else e_party @ cp '' Task completed!'')"

definition deleted_message :: "task \<Rightarrow> pystr" where
  "deleted_message t =
     e_bin @ cp '' Task '' @ [39] @ title t @ [39] @ cp '' has been deleted.''"

section \<open>The dispatcher\<close>

text \<open>
  \<open>handle_slack_command\<close> on the form fields \<open>user_id\<close> and \<open>text\<close>: the reply and the
  state it leaves. The branches of its chain of \<open>if\<close> and \<open>elif\<close> on the action come
  first, each a function of the list \<open>parts\<close>. No statement inside the \<open>try\<close> raises
  (every dictionary is read after a test of membership and every list after a test of its
  length), so the branch \<open>except\<close> has no counterpart here.
\<close>

definition reply :: "visibility \<Rightarrow> pystr \<Rightarrow> response" where
  "reply v txt = \<lparr>response_type = v, response_text = txt\<rparr>"

definition action_create ::
    "env \<Rightarrow> pystr \<Rightarrow> pystr list \<Rightarrow> state \<Rightarrow> response \<times> state" where
  "action_create e user_id parts s =
     (if length parts < 2 then (reply ephemeral usage_create, s)
      else
        let task_input = join [32] (tl parts);
            parsed_data = parse_natural_language e task_input;
            (t, s') = create_task e user_id parsed_data s
        in (reply in_channel (format_task_response (unicode e) t), s'))"

definition action_show :: "ucd \<Rightarrow> pystr list \<Rightarrow> state \<Rightarrow> response \<times> state" where
  "action_show U parts s =
     (if length parts < 2 then (reply ephemeral usage_show, s)
      else
        let tid = parts ! 1 in
        case tasks_db s tid of
          None \<Rightarrow> (reply ephemeral (not_found tid), s)
        | Some t \<Rightarrow> (reply ephemeral (format_task_response U t), s))"

definition action_update :: "ucd \<Rightarrow> pystr list \<Rightarrow> state \<Rightarrow> response \<times> state" where
  "action_update U parts s =
     (if length parts < 3 then (reply ephemeral usage_update, s)
      else
        let tid = parts ! 1;
            new_status = py_lower U (parts ! 2)
        in
        case tasks_db s tid of
          None \<Rightarrow> (reply ephemeral (not_found tid), s)
        | Some t \<Rightarrow>
            if new_status \<notin> set [cp ''pending'', cp ''in_progress'', cp ''completed'']
            then (reply ephemeral bad_status, s)
            else
              let t' = t\<lparr>status := new_status\<rparr> in
              (reply in_channel
                 (status_message new_status @ [newline] @ format_task_response U t'),
               s\<lparr>tasks_db := (tasks_db s)(tid \<mapsto> t')\<rparr>))"

definition action_delete :: "pystr \<Rightarrow> pystr list \<Rightarrow> state \<Rightarrow> response \<times> state" where
  "action_delete user_id parts s =
     (if length parts < 2 then (reply ephemeral usage_delete, s)
      else
        let tid = parts ! 1 in
        case tasks_db s tid of
          None \<Rightarrow> (reply ephemeral (not_found tid), s)
        | Some deleted_task \<Rightarrow>
            let ut = (case user_tasks s user_id of
                        None \<Rightarrow> user_tasks s
                      | Some ids \<Rightarrow>
                          if tid \<in> set ids
                          then (user_tasks s)(user_id \<mapsto> remove1 tid ids)
                          else user_tasks s)
            in (reply ephemeral (deleted_message deleted_task),
                \<lparr>tasks_db = (tasks_db s)(tid := None), user_tasks = ut\<rparr>))"

definition handle_slack_command ::
    "env \<Rightarrow> pystr \<Rightarrow> pystr \<Rightarrow> state \<Rightarrow> response \<times> state" where
  "handle_slack_command e user_id raw s =
     (let text = py_strip raw in
      if text = [] then (reply ephemeral help_text, s)
      else
        let parts = split_whitespace 2 text;
            action = (if parts \<noteq> [] then py_lower (unicode e) (hd parts) else [])
        in
        if action = cp ''create'' then action_create e user_id parts s
        else if action = cp ''list'' then (reply ephemeral (list_user_tasks user_id s), s)
        else if action = cp ''show'' then action_show (unicode e) parts s
        else if action = cp ''update'' then action_update (unicode e) parts s
        else if action = cp ''delete'' then action_delete user_id parts s
        else (reply ephemeral (unknown_action action), s))"

text \<open>A run of the program: the commands it receives, each with what it reads from outside.\<close>

fun run :: "(env \<times> pystr \<times> pystr) list \<Rightarrow> state \<Rightarrow> state" where
  "run [] s = s"
| "run ((e, user_id, raw) # cs) s = run cs (snd (handle_slack_command e user_id raw s))"

section \<open>Notions used in the properties\<close>

text \<open>A word: a non-empty string without white space, as every generated identifier is.\<close>

definition is_word :: "pystr \<Rightarrow> bool" where
  "is_word w = (w \<noteq> [] \<and> (\<forall>c \<in> set w. \<not> py_isspace c))"

text \<open>Index integrity: every identifier in an index entry is a key of the store.\<close>

definition index_ok :: "state \<Rightarrow> bool" where
  "index_ok s = (\<forall>u ids. user_tasks s u = Some ids \<longrightarrow> set ids \<subseteq> dom (tasks_db s))"

text \<open>
  The replies of the four kinds of error (usage, not found, validation, unknown action)
  are those that begin with the cross mark.
\<close>

definition is_error_reply :: "response \<Rightarrow> bool" where
  "is_error_reply r = prefix e_cross (response_text r)"

text \<open>The least number of characters that a match of a pattern takes up.\<close>

fun min_len :: "regex \<Rightarrow> nat" where
  "min_len (Lit l) = length l"
| "min_len (Rep k lo hi) = lo"
| "min_len (RepLazy k lo hi) = lo"
| "min_len (Cat r1 r2) = min_len r1 + min_len r2"
| "min_len (Alt r1 r2) = min (min_len r1) (min_len r2)"
| "min_len (Opt r) = 0"
| "min_len EndAnchor = 0"

text \<open>
  What the specification says of the deadline text: only its first occurrence is taken
  out of the raw text.
\<close>

fun spec_remove_first :: "pystr \<Rightarrow> pystr \<Rightarrow> pystr" where
  "spec_remove_first old [] = []"
| "spec_remove_first old (c # cs) =
     (if prefix old (c # cs) then drop (length old) (c # cs)
      else c # spec_remove_first old cs)"

section \<open>An example environment\<close>

text \<open>
  Two clock readings (2024-01-01 09:30:15 and 2024-03-05 17:45:00); Unicode tables cut
  down to the Arabic-Indic digits, the Kelvin sign (lower case \<open>k\<close>), the dotted capital
  I (lower case \<open>i\<close> and a combining dot) and characters without case; an environment that
  draws a given identifier, reads a given clock, and whose date parser fails (the examples
  hand it no text that the library can read); and the task that \<open>create\<close> builds there
  from a plain title.
\<close>

definition ex_now :: datetime where
  "ex_now = \<lparr>ordinal = 738886, hour = 9, minute = 30, second = 15, microsecond = 0\<rparr>"

definition ex_later :: datetime where
  "ex_later = \<lparr>ordinal = 738950, hour = 17, minute = 45, second = 0, microsecond = 0\<rparr>"

definition ex_ucd :: ucd where
  "ex_ucd = \<lparr>decimal_value = (\<lambda>c. if 1632 \<le> c \<and> c \<le> 1641 then Some (c - 1632) else None),
             lower_at = (\<lambda>s i. if s ! i = 8490 then [107]
                                else if s ! i = 304 then [105, 775] else [s ! i]),
             title_of = (\<lambda>s. s)\<rparr>"

definition ex_env_at :: "datetime \<Rightarrow> pystr \<Rightarrow> env" where
  "ex_env_at clock tid =
     \<lparr>uuid8 = tid, now = clock, now_created = clock, dateutil_parse = (\<lambda>_. None),
       unicode = ex_ucd, int_max_str_digits = 4300\<rparr>"

definition ex_env :: "pystr \<Rightarrow> env" where
  "ex_env tid = ex_env_at ex_now tid"

definition ex_task :: "pystr \<Rightarrow> pystr \<Rightarrow> task" where
  "ex_task tid ttl = \<lparr>task_id = tid, title = ttl, description = None, deadline = None,
     status = cp ''pending'', created_at = ex_now, subtasks = []\<rparr>"

text \<open>The task of the example \<open>create Call client tomorrow. Discuss contract\<close>.\<close>

definition ex_call_task :: task where
  "ex_call_task = \<lparr>task_id = cp ''0a1b2c3d'', title = cp ''Call client'',
     description = Some (cp ''Discuss contract''),
     deadline = Some \<lparr>ordinal = 738887, hour = 9, minute = 30, second = 15, microsecond = 0\<rparr>,
     status = cp ''pending'', created_at = ex_now, subtasks = []\<rparr>"

section \<open>Strings and the tokenizer\<close>

lemma space_is_space: "py_isspace 32"
  by (simp add: py_isspace_def)

lemma py_lower_ascii:
  assumes "list_all is_ascii s"
  shows "py_lower U s = map lower_ascii s"
proof -
  have "map (\<lambda>i. if is_ascii (s ! i) then [lower_ascii (s ! i)] else lower_at U s i)
            [0 ..< length s]
        = map (\<lambda>i. [lower_ascii (s ! i)]) [0 ..< length s]"
    using assms by (simp add: list_all_length)
  also have "\<dots> = map (\<lambda>c. [lower_ascii c]) (map ((!) s) [0 ..< length s])"
    by simp
  also have "\<dots> = map (\<lambda>c. [lower_ascii c]) s"
    by (simp only: map_nth)
  finally show ?thesis
    unfolding py_lower_def by (simp add: concat_map_singleton)
qed

lemma dropWhile_space_word: "is_word w \<Longrightarrow> dropWhile py_isspace (w @ r) = w @ r"
  by (cases w) (auto simp: is_word_def)

lemma takeWhile_word: "is_word w \<Longrightarrow> takeWhile (\<lambda>c. \<not> py_isspace c) (w @ 32 # r) = w"
  by (induction w) (auto simp: is_word_def space_is_space)

lemma dropWhile_word:
  "is_word w \<Longrightarrow> dropWhile (\<lambda>c. \<not> py_isspace c) (w @ 32 # r) = 32 # r"
  by (induction w) (auto simp: is_word_def space_is_space)

lemma takeWhile_word_end: "is_word w \<Longrightarrow> takeWhile (\<lambda>c. \<not> py_isspace c) w = w"
  by (auto simp: is_word_def)

lemma dropWhile_word_end: "is_word w \<Longrightarrow> dropWhile (\<lambda>c. \<not> py_isspace c) w = []"
  by (auto simp: is_word_def)

lemma strip_edges:
  assumes "s \<noteq> []" "\<not> py_isspace (hd s)" "\<not> py_isspace (last s)"
  shows "py_strip s = s"
proof -
  from assms have a: "dropWhile py_isspace s = s" by (cases s) auto
  from assms have "dropWhile py_isspace (rev s) = rev s"
    by (cases "rev s") (auto simp: last_rev hd_rev)
  with a show ?thesis by (simp add: py_strip_def)
qed

lemma strip_word: "is_word a \<Longrightarrow> py_strip a = a"
  by (rule strip_edges) (auto simp: is_word_def)

lemma strip_two:
  "is_word a \<Longrightarrow> is_word b \<Longrightarrow> py_strip (a @ 32 # b) = a @ 32 # b"
  by (rule strip_edges) (auto simp: is_word_def hd_append)

lemma strip_three:
  assumes "is_word a" "is_word c"
  shows "py_strip (a @ 32 # b @ 32 # c) = a @ 32 # b @ 32 # c"
proof (rule strip_edges)
  show "a @ 32 # b @ 32 # c \<noteq> []" by simp
  have "a \<noteq> []" using assms by (simp add: is_word_def)
  then have "hd (a @ 32 # b @ 32 # c) = hd a" by simp
  then show "\<not> py_isspace (hd (a @ 32 # b @ 32 # c))"
    using assms(1) \<open>a \<noteq> []\<close> by (simp add: is_word_def)
  have "c \<noteq> []" using assms by (simp add: is_word_def)
  then have "last (a @ 32 # b @ 32 # c) = last c" by simp
  then show "\<not> py_isspace (last (a @ 32 # b @ 32 # c))"
    using assms(2) \<open>c \<noteq> []\<close> by (simp add: is_word_def)
qed

lemma sw_space: "split_whitespace n (32 # r) = split_whitespace n r"
  by (cases n) (simp_all add: space_is_space)

lemma sw_word_more:
  assumes "is_word a"
  shows "split_whitespace (Suc n) (a @ 32 # r) = a # split_whitespace n r"
proof -
  have "a @ 32 # r \<noteq> []" by simp
  then have "split_whitespace (Suc n) (a @ 32 # r) = a # split_whitespace n (32 # r)"
    by (simp only: split_whitespace.simps Let_def dropWhile_space_word[OF assms]
        takeWhile_word[OF assms] dropWhile_word[OF assms] if_False)
  then show ?thesis by (simp only: sw_space)
qed

lemma sw_word_last:
  assumes "is_word a"
  shows "split_whitespace (Suc n) a = [a]"
proof -
  have d: "dropWhile py_isspace a = a"
    using dropWhile_space_word[OF assms, of "[]"] by simp
  have e: "split_whitespace n [] = []" by (cases n) simp_all
  have "a \<noteq> []" using assms by (simp add: is_word_def)
  then show ?thesis
    by (simp only: split_whitespace.simps Let_def d takeWhile_word_end[OF assms]
        dropWhile_word_end[OF assms] if_False e)
qed

lemma sw_rest:
  assumes "is_word a"
  shows "split_whitespace 0 a = [a]"
proof -
  have d: "dropWhile py_isspace a = a"
    using dropWhile_space_word[OF assms, of "[]"] by simp
  have "a \<noteq> []" using assms by (simp add: is_word_def)
  then show ?thesis by (simp only: split_whitespace.simps Let_def d if_False)
qed

lemma split_two:
  assumes "is_word a" "is_word b"
  shows "split_whitespace 2 (a @ 32 # b) = [a, b]"
  unfolding numeral_2_eq_2
  by (simp only: sw_word_more[OF assms(1)] sw_word_last[OF assms(2)])

lemma split_three:
  assumes "is_word a" "is_word b" "is_word c"
  shows "split_whitespace 2 (a @ 32 # b @ 32 # c) = [a, b, c]"
  unfolding numeral_2_eq_2
  by (simp only: sw_word_more[OF assms(1)] sw_word_more[OF assms(2)] sw_rest[OF assms(3)])

lemma split_nonempty: "split_whitespace n (py_strip raw) \<noteq> [] \<Longrightarrow> py_strip raw \<noteq> []"
  by (cases n) auto

lemma hex_not_space: "c \<in> set (cp ''0123456789abcdef'') \<Longrightarrow> \<not> py_isspace c"
  by (auto simp: py_isspace_def cp_def)

lemma hex8_word:
  assumes "is_hex8 t"
  shows "is_word t"
proof -
  from assms have len: "length t = 8"
    and hex: "\<And>c. c \<in> set t \<Longrightarrow> c \<in> set (cp ''0123456789abcdef'')"
    unfolding is_hex8_def by blast+
  from len have "t \<noteq> []" by auto
  moreover have "\<not> py_isspace c" if "c \<in> set t" for c
    using hex[OF that] by (rule hex_not_space)
  ultimately show ?thesis unfolding is_word_def by blast
qed

lemma ascii_word: "is_word (cp ''show'')" "is_word (cp ''update'')" "is_word (cp ''delete'')"
  "is_word (cp ''create'')" "is_word (cp ''list'')"
  "is_word (cp ''pending'')" "is_word (cp ''in_progress'')" "is_word (cp ''completed'')"
  by (simp_all add: is_word_def py_isspace_def cp_def)

lemma ascii_lower: "py_lower U (cp ''show'') = cp ''show''"
  "py_lower U (cp ''update'') = cp ''update''" "py_lower U (cp ''delete'') = cp ''delete''"
  "py_lower U (cp ''create'') = cp ''create''" "py_lower U (cp ''list'') = cp ''list''"
  "py_lower U (cp ''pending'') = cp ''pending''"
  "py_lower U (cp ''in_progress'') = cp ''in_progress''"
  "py_lower U (cp ''completed'') = cp ''completed''"
  by (simp_all add: py_lower_ascii cp_def is_ascii_def lower_ascii_def)

lemma cp_space: "cp (s @ '' '') = cp s @ [32]" "cp (s @ t) = cp s @ cp t"
  by (simp_all add: cp_def)

section \<open>The dispatcher's branches\<close>

lemma action_names_differ:
  "cp ''show'' \<noteq> cp ''create''" "cp ''show'' \<noteq> cp ''list''"
  "cp ''update'' \<noteq> cp ''create''" "cp ''update'' \<noteq> cp ''list''"
  "cp ''update'' \<noteq> cp ''show''"
  "cp ''delete'' \<noteq> cp ''create''" "cp ''delete'' \<noteq> cp ''list''"
  "cp ''delete'' \<noteq> cp ''show''" "cp ''delete'' \<noteq> cp ''update''"
  by (simp_all add: cp_def)

lemma handle_create:
  assumes "split_whitespace 2 (py_strip raw) = parts" "2 \<le> length parts"
    "py_lower (unicode e) (hd parts) = cp ''create''"
  shows "handle_slack_command e u raw s = action_create e u parts s"
proof -
  have ne: "parts \<noteq> []" using assms(2) by auto
  then have "py_strip raw \<noteq> []" using assms(1) split_nonempty by blast
  then show ?thesis
    using assms ne unfolding handle_slack_command_def Let_def by simp
qed

lemma handle_show:
  assumes "split_whitespace 2 (py_strip raw) = parts" "2 \<le> length parts"
    "py_lower (unicode e) (hd parts) = cp ''show''"
  shows "handle_slack_command e u raw s = action_show (unicode e) parts s"
proof -
  have ne: "parts \<noteq> []" using assms(2) by auto
  then have "py_strip raw \<noteq> []" using assms(1) split_nonempty by blast
  then show ?thesis
    using assms ne unfolding handle_slack_command_def Let_def
    by (simp add: action_names_differ)
qed

lemma handle_update:
  assumes "split_whitespace 2 (py_strip raw) = parts" "2 \<le> length parts"
    "py_lower (unicode e) (hd parts) = cp ''update''"
  shows "handle_slack_command e u raw s = action_update (unicode e) parts s"
proof -
  have ne: "parts \<noteq> []" using assms(2) by auto
  then have "py_strip raw \<noteq> []" using assms(1) split_nonempty by blast
  then show ?thesis
    using assms ne unfolding handle_slack_command_def Let_def
    by (simp add: action_names_differ)
qed

lemma handle_delete:
  assumes "split_whitespace 2 (py_strip raw) = parts" "2 \<le> length parts"
    "py_lower (unicode e) (hd parts) = cp ''delete''"
  shows "handle_slack_command e u raw s = action_delete u parts s"
proof -
  have ne: "parts \<noteq> []" using assms(2) by auto
  then have "py_strip raw \<noteq> []" using assms(1) split_nonempty by blast
  then show ?thesis
    using assms ne unfolding handle_slack_command_def Let_def
    by (simp add: action_names_differ)
qed

lemma parts_show:
  assumes "is_word t"
  shows "split_whitespace 2 (py_strip (cp ''show '' @ t)) = [cp ''show'', t]"
proof -
  have c: "cp ''show '' @ t = cp ''show'' @ 32 # t" by (simp add: cp_def)
  show ?thesis
    unfolding c strip_two[OF ascii_word(1) assms] by (rule split_two[OF ascii_word(1) assms])
qed

lemma parts_delete:
  assumes "is_word t"
  shows "split_whitespace 2 (py_strip (cp ''delete '' @ t)) = [cp ''delete'', t]"
proof -
  have c: "cp ''delete '' @ t = cp ''delete'' @ 32 # t" by (simp add: cp_def)
  show ?thesis
    unfolding c strip_two[OF ascii_word(3) assms] by (rule split_two[OF ascii_word(3) assms])
qed

lemma parts_update:
  assumes "is_word t" "is_word st"
  shows "split_whitespace 2 (py_strip (cp ''update '' @ t @ cp '' '' @ st))
         = [cp ''update'', t, st]"
proof -
  have c: "cp ''update '' @ t @ cp '' '' @ st = cp ''update'' @ 32 # t @ 32 # st"
    by (simp add: cp_def)
  show ?thesis
    unfolding c strip_three[OF ascii_word(2) assms(2)]
    by (rule split_three[OF ascii_word(2) assms])
qed

subsection \<open>What a command can do to the state\<close>

lemma handle_cases:
  assumes "handle_slack_command e u raw s = (r, s')"
  obtains (unchanged) "s' = s"
  | (created) td where
      "r = reply in_channel (format_task_response (unicode e) (fst (create_task e u td s)))"
      "s' = snd (create_task e u td s)"
  | (updated) tid tk st where
      "tasks_db s tid = Some tk"
      "st \<in> set [cp ''pending'', cp ''in_progress'', cp ''completed'']"
      "r = reply in_channel
             (status_message st @ [newline]
                @ format_task_response (unicode e) (tk\<lparr>status := st\<rparr>))"
      "s' = s\<lparr>tasks_db := (tasks_db s)(tid \<mapsto> tk\<lparr>status := st\<rparr>)\<rparr>"
  | (deleted) tid tk where
      "tasks_db s tid = Some tk"
      "r = reply ephemeral (deleted_message tk)"
      "s' = \<lparr>tasks_db = (tasks_db s)(tid := None),
             user_tasks = (case user_tasks s u of
                             None \<Rightarrow> user_tasks s
                           | Some ids \<Rightarrow> if tid \<in> set ids
                                         then (user_tasks s)(u \<mapsto> remove1 tid ids)
                                         else user_tasks s)\<rparr>"
proof -
  define parts where "parts = split_whitespace 2 (py_strip raw)"
  define action where
    "action = (if parts \<noteq> [] then py_lower (unicode e) (hd parts) else [])"
  have H: "(r, s') =
     (if py_strip raw = [] then (reply ephemeral help_text, s)
      else if action = cp ''create'' then action_create e u parts s
        else if action = cp ''list'' then (reply ephemeral (list_user_tasks u s), s)
        else if action = cp ''show'' then action_show (unicode e) parts s
        else if action = cp ''update'' then action_update (unicode e) parts s
        else if action = cp ''delete'' then action_delete u parts s
        else (reply ephemeral (unknown_action action), s))"
    using assms unfolding handle_slack_command_def Let_def parts_def action_def by simp
  consider (a) "s' = s" | (b) "(r, s') = action_create e u parts s"
    | (c) "(r, s') = action_show (unicode e) parts s"
    | (d) "(r, s') = action_update (unicode e) parts s"
    | (f) "(r, s') = action_delete u parts s"
    using H by (auto split: if_splits)
  then show thesis
  proof cases
    case a then show ?thesis by (rule unchanged)
  next
    case b
    show ?thesis
    proof (cases "length parts < 2")
      case True with b show ?thesis by (auto simp: action_create_def intro: unchanged)
    next
      case False
      with b show ?thesis
        by (intro created[of "parse_natural_language e (join [32] (tl parts))"])
           (auto simp: action_create_def Let_def split: prod.splits)
    qed
  next
    case c then show ?thesis
      by (auto simp: action_show_def Let_def split: if_splits option.splits intro: unchanged)
  next
    case d then show ?thesis
      by (auto simp: action_update_def Let_def split: if_splits option.splits
          intro: unchanged updated)
  next
    case f then show ?thesis
      by (auto simp: action_delete_def Let_def split: if_splits option.splits
          intro: unchanged deleted)
  qed
qed

lemma create_task_eq:
  "create_task e u td s =
     (\<lparr>task_id = uuid8 e, title = data_title td, description = data_description td,
        deadline = data_deadline td, status = cp ''pending'',
        created_at = now_created e, subtasks = []\<rparr>,
      \<lparr>tasks_db = (tasks_db s)(uuid8 e \<mapsto>
           \<lparr>task_id = uuid8 e, title = data_title td, description = data_description td,
             deadline = data_deadline td, status = cp ''pending'',
             created_at = now_created e, subtasks = []\<rparr>),
        user_tasks = (user_tasks s)(u \<mapsto>
           (case user_tasks s u of None \<Rightarrow> [] | Some ids \<Rightarrow> ids) @ [uuid8 e])\<rparr>)"
  by (auto simp: create_task_def generate_task_id_def Let_def split: option.splits)

lemma create_effect:
  assumes "split_whitespace 2 (py_strip raw) = parts" "2 \<le> length parts"
    "py_lower (unicode e) (hd parts) = cp ''create''"
  shows "handle_slack_command e u raw s =
     (reply in_channel (format_task_response (unicode e)
         (fst (create_task e u (parse_natural_language e (join [32] (tl parts))) s))),
      snd (create_task e u (parse_natural_language e (join [32] (tl parts))) s))"
  using assms(2)
  by (simp add: handle_create[OF assms] action_create_def Let_def split: prod.splits)

lemma show_existing:
  assumes "tasks_db s t = Some tk" "is_word t"
  shows "handle_slack_command e u (cp ''show '' @ t) s
         = (reply ephemeral (format_task_response (unicode e) tk), s)"
  by (subst handle_show[OF parts_show[OF assms(2)]])
     (simp_all add: ascii_lower action_show_def assms(1))

lemma valid_status_word:
  "st \<in> set [cp ''pending'', cp ''in_progress'', cp ''completed''] \<Longrightarrow> is_word st"
  using ascii_word by auto

lemma valid_status_lower:
  "st \<in> set [cp ''pending'', cp ''in_progress'', cp ''completed''] \<Longrightarrow> py_lower U st = st"
  using ascii_lower by auto

lemma update_existing:
  assumes "tasks_db s t = Some tk" "is_word t"
    "st \<in> set [cp ''pending'', cp ''in_progress'', cp ''completed'']"
  shows "handle_slack_command e u (cp ''update '' @ t @ cp '' '' @ st) s
         = (reply in_channel
              (status_message st @ [newline]
                 @ format_task_response (unicode e) (tk\<lparr>status := st\<rparr>)),
            s\<lparr>tasks_db := (tasks_db s)(t \<mapsto> tk\<lparr>status := st\<rparr>)\<rparr>)"
proof -
  have w: "is_word st" using assms(3) by (rule valid_status_word)
  have l: "py_lower (unicode e) st = st" using assms(3) by (rule valid_status_lower)
  show ?thesis
    using assms(3)
    by (subst handle_update[OF parts_update[OF assms(2) w]])
       (simp_all add: ascii_lower action_update_def l Let_def assms(1))
qed

lemma delete_existing:
  assumes "tasks_db s t = Some tk" "is_word t"
  shows "handle_slack_command e u (cp ''delete '' @ t) s
         = (reply ephemeral (deleted_message tk),
            \<lparr>tasks_db = (tasks_db s)(t := None),
              user_tasks = (case user_tasks s u of
                              None \<Rightarrow> user_tasks s
                            | Some ids \<Rightarrow> if t \<in> set ids
                                          then (user_tasks s)(u \<mapsto> remove1 t ids)
                                          else user_tasks s)\<rparr>)"
  by (subst handle_delete[OF parts_delete[OF assms(2)]])
     (simp_all add: ascii_lower action_delete_def Let_def assms(1))

subsection \<open>Runs in the example environment\<close>

lemma ex_env_fields:
  "uuid8 (ex_env_at clock tid) = tid" "now (ex_env_at clock tid) = clock"
  "now_created (ex_env_at clock tid) = clock" "unicode (ex_env_at clock tid) = ex_ucd"
  "dateutil_parse (ex_env_at clock tid) x = None"
  "int_max_str_digits (ex_env_at clock tid) = 4300"
  by (simp_all add: ex_env_at_def)

lemma parse_plain:
  "parse_natural_language (ex_env_at clock tid) (cp ''Buy milk'')
     = \<lparr>data_title = cp ''Buy milk'', data_description = None, data_deadline = None\<rparr>"
proof -
  have 1: "first_match ex_ucd deadline_patterns (cp ''Buy milk'') = None" by code_simp
  have 2: "title_description (cp ''Buy milk'') = (cp ''Buy milk'', None)" by code_simp
  show ?thesis
    by (simp add: parse_natural_language_def remainder_def ex_env_fields 1 2)
qed

lemma parse_walk:
  "parse_natural_language (ex_env_at clock tid) (cp ''Walk dog'')
     = \<lparr>data_title = cp ''Walk dog'', data_description = None, data_deadline = None\<rparr>"
proof -
  have 1: "first_match ex_ucd deadline_patterns (cp ''Walk dog'') = None" by code_simp
  have 2: "title_description (cp ''Walk dog'') = (cp ''Walk dog'', None)" by code_simp
  show ?thesis
    by (simp add: parse_natural_language_def remainder_def ex_env_fields 1 2)
qed

lemma parts_create_buy_milk:
  "split_whitespace 2 (py_strip (cp ''create Buy milk'')) = [cp ''create'', cp ''Buy'', cp ''milk'']"
  by code_simp

lemma parts_create_walk_dog:
  "split_whitespace 2 (py_strip (cp ''create Walk dog'')) = [cp ''create'', cp ''Walk'', cp ''dog'']"
  by code_simp

lemma join_buy_milk: "cp ''Buy'' @ 32 # cp ''milk'' = cp ''Buy milk''"
  by (simp add: cp_def)

lemma join_walk_dog: "cp ''Walk'' @ 32 # cp ''dog'' = cp ''Walk dog''"
  by (simp add: cp_def)

lemma handle_create_buy_milk:
  "handle_slack_command (ex_env_at clock tid) u (cp ''create Buy milk'') s =
     (reply in_channel (format_task_response ex_ucd
         ((ex_task tid (cp ''Buy milk''))\<lparr>created_at := clock\<rparr>)),
      \<lparr>tasks_db = (tasks_db s)(tid \<mapsto> (ex_task tid (cp ''Buy milk''))\<lparr>created_at := clock\<rparr>),
        user_tasks = (user_tasks s)(u \<mapsto>
           (case user_tasks s u of None \<Rightarrow> [] | Some ids \<Rightarrow> ids) @ [tid])\<rparr>)"
  by (subst create_effect[OF parts_create_buy_milk])
     (simp_all add: ascii_lower join_buy_milk parse_plain create_task_eq ex_env_fields
        ex_task_def)

lemma handle_create_walk_dog:
  "handle_slack_command (ex_env_at clock tid) u (cp ''create Walk dog'') s =
     (reply in_channel (format_task_response ex_ucd
         ((ex_task tid (cp ''Walk dog''))\<lparr>created_at := clock\<rparr>)),
      \<lparr>tasks_db = (tasks_db s)(tid \<mapsto> (ex_task tid (cp ''Walk dog''))\<lparr>created_at := clock\<rparr>),
        user_tasks = (user_tasks s)(u \<mapsto>
           (case user_tasks s u of None \<Rightarrow> [] | Some ids \<Rightarrow> ids) @ [tid])\<rparr>)"
  by (subst create_effect[OF parts_create_walk_dog])
     (simp_all add: ascii_lower join_walk_dog parse_walk create_task_eq ex_env_fields
        ex_task_def)

lemma ex_task_clock: "(ex_task tid ttl)\<lparr>created_at := ex_now\<rparr> = ex_task tid ttl"
  by (simp add: ex_task_def)

lemma id_word: "is_word (cp ''0a1b2c3d'')"
  by (simp add: is_word_def py_isspace_def cp_def)

lemma state_after_create:
  "run [(ex_env (cp ''0a1b2c3d''), cp ''U1'', cp ''create Buy milk'')] initial_state
   = \<lparr>tasks_db = [cp ''0a1b2c3d'' \<mapsto> ex_task (cp ''0a1b2c3d'') (cp ''Buy milk'')],
       user_tasks = [cp ''U1'' \<mapsto> [cp ''0a1b2c3d'']]\<rparr>"
  by (simp add: ex_env_def handle_create_buy_milk ex_task_clock initial_state_def)

lemma users_differ: "cp ''U1'' \<noteq> cp ''U2''" "cp ''U2'' \<noteq> cp ''U1''"
  by (simp_all add: cp_def)

lemma state_after_delete_by_other:
  "run [(ex_env (cp ''0a1b2c3d''), cp ''U1'', cp ''create Buy milk''),
        (ex_env (cp ''5e6f7a8b''), cp ''U2'', cp ''delete '' @ cp ''0a1b2c3d'')] initial_state
   = \<lparr>tasks_db = Map.empty, user_tasks = [cp ''U1'' \<mapsto> [cp ''0a1b2c3d'']]\<rparr>"
proof -
  have "run [(ex_env (cp ''0a1b2c3d''), cp ''U1'', cp ''create Buy milk''),
        (ex_env (cp ''5e6f7a8b''), cp ''U2'', cp ''delete '' @ cp ''0a1b2c3d'')] initial_state
     = snd (handle_slack_command (ex_env (cp ''5e6f7a8b'')) (cp ''U2'')
              (cp ''delete '' @ cp ''0a1b2c3d'')
         (run [(ex_env (cp ''0a1b2c3d''), cp ''U1'', cp ''create Buy milk'')] initial_state))"
    by simp
  also have "\<dots> = \<lparr>tasks_db = Map.empty, user_tasks = [cp ''U1'' \<mapsto> [cp ''0a1b2c3d'']]\<rparr>"
    unfolding state_after_create
    by (subst delete_existing[OF _ id_word,
          of _ "ex_task (cp ''0a1b2c3d'') (cp ''Buy milk'')"])
       (simp_all add: users_differ)
  finally show ?thesis .
qed

section \<open>Claims about the dispatcher\<close>

text \<open>
  Claim C2. The dispatcher makes no ownership check. Whatever user \<open>B\<close> calls, when the
  identifier \<open>t\<close> is in the store (created by whoever), \<open>show t\<close> returns the detail view
  of the task, \<open>update t st\<close> with one of the three statuses sets the status and returns
  the confirmation, and \<open>delete t\<close> returns the confirmation of the deletion and removes
  \<open>t\<close> from the store: the replies and the store do not depend on the caller, whose
  identifier serves only to pick the index entry from which \<open>delete\<close> takes \<open>t\<close> out.
\<close>

theorem no_ownership_check:
  assumes "tasks_db s t = Some tk" and "is_word t"
    and "st \<in> set [cp ''pending'', cp ''in_progress'', cp ''completed'']"
  shows "handle_slack_command e B (cp ''show '' @ t) s
           = (reply ephemeral (format_task_response (unicode e) tk), s)
       \<and> handle_slack_command e B (cp ''update '' @ t @ cp '' '' @ st) s
           = (reply in_channel
                (status_message st @ [newline]
                   @ format_task_response (unicode e) (tk\<lparr>status := st\<rparr>)),
              s\<lparr>tasks_db := (tasks_db s)(t \<mapsto> tk\<lparr>status := st\<rparr>)\<rparr>)
       \<and> handle_slack_command e B (cp ''delete '' @ t) s
           = (reply ephemeral (deleted_message tk),
              \<lparr>tasks_db = (tasks_db s)(t := None),
                user_tasks = (case user_tasks s B of
                                None \<Rightarrow> user_tasks s
                              | Some ids \<Rightarrow> if t \<in> set ids
                                            then (user_tasks s)(B \<mapsto> remove1 t ids)
                                            else user_tasks s)\<rparr>)"
  using show_existing[OF assms(1,2)] update_existing[OF assms] delete_existing[OF assms(1,2)]
  by simp

theorem no_ownership_check_witness:
  "(let s = run [(ex_env (cp ''0a1b2c3d''), cp ''U1'', cp ''create Buy milk'')] initial_state;
        tk = ex_task (cp ''0a1b2c3d'') (cp ''Buy milk'')
    in tasks_db s (cp ''0a1b2c3d'') = Some tk \<and> is_word (cp ''0a1b2c3d'')
       \<and> handle_slack_command (ex_env (cp ''5e6f7a8b'')) (cp ''U2'')
             (cp ''show '' @ cp ''0a1b2c3d'') s
           = (reply ephemeral (format_task_response ex_ucd tk), s)
       \<and> handle_slack_command (ex_env (cp ''5e6f7a8b'')) (cp ''U2'')
             (cp ''update '' @ cp ''0a1b2c3d'' @ cp '' '' @ cp ''completed'') s
           = (reply in_channel (status_message (cp ''completed'') @ [newline]
                @ format_task_response ex_ucd (tk\<lparr>status := cp ''completed''\<rparr>)),
              s\<lparr>tasks_db := (tasks_db s)(cp ''0a1b2c3d''
                    \<mapsto> tk\<lparr>status := cp ''completed''\<rparr>)\<rparr>)
       \<and> handle_slack_command (ex_env (cp ''5e6f7a8b'')) (cp ''U2'')
             (cp ''delete '' @ cp ''0a1b2c3d'') s
           = (reply ephemeral (deleted_message tk),
              \<lparr>tasks_db = Map.empty, user_tasks = [cp ''U1'' \<mapsto> [cp ''0a1b2c3d'']]\<rparr>))"
proof -
  let ?s = "\<lparr>tasks_db = [cp ''0a1b2c3d'' \<mapsto> ex_task (cp ''0a1b2c3d'') (cp ''Buy milk'')],
       user_tasks = [cp ''U1'' \<mapsto> [cp ''0a1b2c3d'']]\<rparr>"
  have a: "tasks_db ?s (cp ''0a1b2c3d'') = Some (ex_task (cp ''0a1b2c3d'') (cp ''Buy milk''))"
    by simp
  have b: "cp ''completed'' \<in> set [cp ''pending'', cp ''in_progress'', cp ''completed'']"
    by simp
  have u: "unicode (ex_env (cp ''5e6f7a8b'')) = ex_ucd" by (simp add: ex_env_def ex_env_fields)
  show ?thesis
    using no_ownership_check[OF a id_word b, of "ex_env (cp ''5e6f7a8b'')" "cp ''U2''"] id_word
    unfolding state_after_create Let_def u
    by (simp add: users_differ)
qed

text \<open>
  Claim C3. Uniqueness of task identifiers fails in the code: \<open>generate_task_id\<close> returns
  the first eight hexadecimal digits of a random UUID and \<open>create_task\<close> stores under it
  without looking whether the store already has that key. When two creations draw the
  same eight digits, the second task overwrites the first in the store, and the indexes
  of both users name the one identifier.
\<close>

theorem task_id_collision:
  "(let s1 = run [(ex_env (cp ''0a1b2c3d''), cp ''U1'', cp ''create Buy milk'')] initial_state;
        s2 = run [(ex_env (cp ''0a1b2c3d''), cp ''U2'', cp ''create Walk dog'')] s1
    in tasks_db s1 (cp ''0a1b2c3d'') = Some (ex_task (cp ''0a1b2c3d'') (cp ''Buy milk''))
       \<and> tasks_db s2 (cp ''0a1b2c3d'') = Some (ex_task (cp ''0a1b2c3d'') (cp ''Walk dog''))
       \<and> dom (tasks_db s2) = {cp ''0a1b2c3d''}
       \<and> user_tasks s2 (cp ''U1'') = Some [cp ''0a1b2c3d'']
       \<and> user_tasks s2 (cp ''U2'') = Some [cp ''0a1b2c3d''])"
  by (simp only: Let_def state_after_create)
     (simp add: ex_env_def handle_create_walk_dog ex_task_clock users_differ)

lemma cross_ne:
  "\<not> prefix e_cross (e_check @ a)" "\<not> prefix e_cross (e_hourglass @ a)"
  "\<not> prefix e_cross (e_arrows @ a)" "\<not> prefix e_cross (e_party @ a)"
  "\<not> prefix e_cross (e_bin @ a)"
  by (simp_all add: e_cross_def e_check_def e_hourglass_def e_arrows_def e_party_def e_bin_def)

lemma format_not_error: "\<not> is_error_reply (reply v (format_task_response U t))"
  by (simp add: is_error_reply_def reply_def format_task_response_def cross_ne)

lemma status_message_not_error:
  "\<not> is_error_reply (reply v (status_message st @ rest))"
  by (simp add: is_error_reply_def reply_def status_message_def cross_ne)

lemma deleted_not_error: "\<not> is_error_reply (reply v (deleted_message t))"
  by (simp add: is_error_reply_def reply_def deleted_message_def cross_ne)

text \<open>
  Claim C7. Error atomicity. A reply that reports an error (usage, not found, invalid
  status, unknown action: the replies that begin with the cross mark) comes with the
  state unchanged, store and index alike; in particular an \<open>update\<close> (the first word in
  any letter case) that names a stored task and gives, after lowering, a status outside
  the three allowed ones replies with the validation error and changes nothing, so the
  task keeps its status.
\<close>

theorem error_atomicity:
  "(handle_slack_command e u raw s = (r, s') \<longrightarrow> is_error_reply r \<longrightarrow> s' = s)
   \<and> (\<forall>txt \<in> set [usage_create, usage_show, usage_update, usage_delete, not_found tid,
                    bad_status, unknown_action a]. is_error_reply (reply v txt))
   \<and> (split_whitespace 2 (py_strip raw) = parts \<and> 3 \<le> length parts
        \<and> py_lower (unicode e) (hd parts) = cp ''update''
        \<and> tasks_db s (parts ! 1) = Some tk
        \<and> py_lower (unicode e) (parts ! 2)
             \<notin> set [cp ''pending'', cp ''in_progress'', cp ''completed'']
      \<longrightarrow> handle_slack_command e u raw s
            = (reply ephemeral
                 ([0x274C] @ cp '' Status must be one of: pending, in_progress, completed''), s))"
proof (intro conjI impI)
  assume h: "handle_slack_command e u raw s = (r, s')" and err: "is_error_reply r"
  from h show "s' = s"
  proof (cases rule: handle_cases)
    case unchanged then show ?thesis .
  next
    case (created td) with err show ?thesis by (simp add: format_not_error)
  next
    case (updated tid tk st) with err show ?thesis
      using status_message_not_error by blast
  next
    case (deleted tid tk) with err show ?thesis by (simp add: deleted_not_error)
  qed
next
  show "\<forall>txt \<in> set [usage_create, usage_show, usage_update, usage_delete, not_found tid,
                    bad_status, unknown_action a]. is_error_reply (reply v txt)"
    by (simp add: is_error_reply_def reply_def usage_create_def usage_show_def
        usage_update_def usage_delete_def not_found_def bad_status_def unknown_action_def)
next
  assume a: "split_whitespace 2 (py_strip raw) = parts \<and> 3 \<le> length parts
        \<and> py_lower (unicode e) (hd parts) = cp ''update''
        \<and> tasks_db s (parts ! 1) = Some tk
        \<and> py_lower (unicode e) (parts ! 2)
             \<notin> set [cp ''pending'', cp ''in_progress'', cp ''completed'']"
  then have p: "split_whitespace 2 (py_strip raw) = parts" and l2: "2 \<le> length parts"
    and up: "py_lower (unicode e) (hd parts) = cp ''update''" by simp_all
  show "handle_slack_command e u raw s
            = (reply ephemeral
                 ([0x274C] @ cp '' Status must be one of: pending, in_progress, completed''), s)"
    using a
    by (subst handle_update[OF p l2 up])
       (simp add: action_update_def Let_def bad_status_def e_cross_def)
qed

theorem error_atomicity_witness:
  "(let s = \<lparr>tasks_db = [cp ''0a1b2c3d'' \<mapsto> ex_task (cp ''0a1b2c3d'') (cp ''Buy milk'')],
              user_tasks = [cp ''U1'' \<mapsto> [cp ''0a1b2c3d'']]\<rparr>;
        res = handle_slack_command (ex_env (cp ''5e6f7a8b'')) (cp ''U1'')
                (cp ''Update  0a1b2c3d Done'') s
    in split_whitespace 2 (py_strip (cp ''Update  0a1b2c3d Done''))
         = [cp ''Update'', cp ''0a1b2c3d'', cp ''Done'']
       \<and> py_lower ex_ucd (cp ''Update'') = cp ''update''
       \<and> py_lower ex_ucd (cp ''Done'') = cp ''done''
       \<and> res = (reply ephemeral
                  ([0x274C] @ cp '' Status must be one of: pending, in_progress, completed''), s)
       \<and> is_error_reply (fst res)
       \<and> tasks_db (snd res) (cp ''0a1b2c3d'')
           = Some (ex_task (cp ''0a1b2c3d'') (cp ''Buy milk'')))"
proof -
  let ?s = "\<lparr>tasks_db = [cp ''0a1b2c3d'' \<mapsto> ex_task (cp ''0a1b2c3d'') (cp ''Buy milk'')],
              user_tasks = [cp ''U1'' \<mapsto> [cp ''0a1b2c3d'']]\<rparr>"
  let ?e = "ex_env (cp ''5e6f7a8b'')"
  have p: "split_whitespace 2 (py_strip (cp ''Update  0a1b2c3d Done''))
         = [cp ''Update'', cp ''0a1b2c3d'', cp ''Done'']" by code_simp
  have l1: "py_lower ex_ucd (cp ''Update'') = cp ''update''" by code_simp
  have l2: "py_lower ex_ucd (cp ''Done'') = cp ''done''" by code_simp
  have u: "unicode ?e = ex_ucd" by (simp add: ex_env_def ex_env_fields)
  have nv: "cp ''done'' \<notin> set [cp ''pending'', cp ''in_progress'', cp ''completed'']"
    by (simp add: cp_def)
  have b: "is_error_reply (reply ephemeral
             ([0x274C] @ cp '' Status must be one of: pending, in_progress, completed''))"
    by (simp add: is_error_reply_def reply_def e_cross_def)
  have "handle_slack_command ?e (cp ''U1'') (cp ''Update  0a1b2c3d Done'') ?s
        = (reply ephemeral
             ([0x274C] @ cp '' Status must be one of: pending, in_progress, completed''), ?s)"
    using error_atomicity[of ?e "cp ''U1''" "cp ''Update  0a1b2c3d Done''" ?s
        "reply ephemeral bad_status" ?s "cp ''0a1b2c3d''" "cp ''x''" ephemeral
        "[cp ''Update'', cp ''0a1b2c3d'', cp ''Done'']"
        "ex_task (cp ''0a1b2c3d'') (cp ''Buy milk'')"] p l1 l2 nv
    by (simp add: u)
  then show ?thesis using p l1 l2 b by (simp add: Let_def)
qed

lemma index_okD:
  "index_ok s \<Longrightarrow> user_tasks s u = Some ids \<Longrightarrow> x \<in> set ids \<Longrightarrow> x \<in> dom (tasks_db s)"
  unfolding index_ok_def by blast

lemma index_ok_create:
  assumes "index_ok s"
  shows "index_ok (snd (create_task e u td s))"
  unfolding index_ok_def
proof (intro allI impI subsetI)
  fix v ids x
  assume v: "user_tasks (snd (create_task e u td s)) v = Some ids" and x: "x \<in> set ids"
  show "x \<in> dom (tasks_db (snd (create_task e u td s)))"
  proof (cases "x = uuid8 e")
    case True then show ?thesis by (simp add: create_task_eq)
  next
    case False
    have "\<exists>ids0. user_tasks s v = Some ids0 \<and> x \<in> set ids0"
      using v x False by (auto simp: create_task_eq split: option.splits if_splits)
    then have "x \<in> dom (tasks_db s)" using index_okD[OF assms] by blast
    then show ?thesis by (auto simp: create_task_eq)
  qed
qed

lemma index_ok_update:
  "index_ok s \<Longrightarrow> tasks_db s tid = Some tk \<Longrightarrow>
   index_ok (s\<lparr>tasks_db := (tasks_db s)(tid \<mapsto> tk')\<rparr>)"
  unfolding index_ok_def by (simp add: dom_def) blast

lemma set_remove1_once: "count_list ids x \<le> 1 \<Longrightarrow> x \<notin> set (remove1 x ids)"
proof (induction ids)
  case Nil then show ?case by simp
next
  case (Cons a ids)
  show ?case
  proof (cases "a = x")
    case True
    with Cons.prems have "count_list ids x = 0" by simp
    then have "x \<notin> set ids" by (simp add: count_list_0_iff)
    with True show ?thesis by simp
  next
    case False
    with Cons show ?thesis by simp
  qed
qed

lemma index_preserved:
  assumes "index_ok s" and "handle_slack_command e u raw s = (r, s')"
    and "\<forall>tid. tasks_db s tid \<noteq> None \<and> tasks_db s' tid = None \<longrightarrow>
           (\<forall>v ids. user_tasks s v = Some ids \<longrightarrow>
              (if v = u then count_list ids tid \<le> 1 else tid \<notin> set ids))"
  shows "index_ok s'"
  using assms(2)
proof (cases rule: handle_cases)
  case unchanged
  with assms(1) show ?thesis by simp
next
  case (created td)
  with assms(1) show ?thesis by (simp add: index_ok_create)
next
  case (updated tid tk st)
  with assms(1) show ?thesis by (simp add: index_ok_update)
next
  case (deleted tid tk)
  have gone: "tasks_db s tid \<noteq> None \<and> tasks_db s' tid = None"
    using deleted by simp
  with assms(3) have safe: "\<And>v ids. user_tasks s v = Some ids \<Longrightarrow>
      (if v = u then count_list ids tid \<le> 1 else tid \<notin> set ids)"
    by blast
  show ?thesis
    unfolding index_ok_def
  proof (intro allI impI subsetI)
    fix v ids x
    assume v: "user_tasks s' v = Some ids" and x: "x \<in> set ids"
    have db: "tasks_db s' = (tasks_db s)(tid := None)" using deleted(3) by simp
    show "x \<in> dom (tasks_db s')"
    proof (cases "v = u")
      case False
      with v deleted(3) have old: "user_tasks s v = Some ids"
        by (auto split: option.splits if_splits)
      with safe[OF old] False have "tid \<notin> set ids" by simp
      with x have "x \<noteq> tid" by auto
      moreover have "x \<in> dom (tasks_db s)"
        by (rule index_okD[OF assms(1) old x])
      ultimately show ?thesis by (simp add: db)
    next
      case True
      then obtain ids0 where old: "user_tasks s u = Some ids0"
        using v deleted(3) by (cases "user_tasks s u") auto
      from safe[OF old] have c: "count_list ids0 tid \<le> 1" by simp
      have sub: "set ids \<subseteq> set ids0" and nt: "tid \<notin> set ids"
      proof -
        show "set ids \<subseteq> set ids0"
          using v True old deleted(3) set_remove1_subset[of tid ids0]
          by (auto split: if_splits)
        show "tid \<notin> set ids"
          using v True old deleted(3) set_remove1_once[OF c]
          by (auto split: if_splits)
      qed
      from sub x have "x \<in> set ids0" by blast
      then have "x \<in> dom (tasks_db s)"
        by (rule index_okD[OF assms(1) old])
      moreover from nt x have "x \<noteq> tid" by auto
      ultimately show ?thesis by (simp add: db)
    qed
  qed
qed

lemma removal_is_delete:
  assumes "handle_slack_command e u raw s = (r, s')"
    and "tasks_db s tid = Some tk" and "tasks_db s' tid = None"
  shows "r = reply ephemeral (deleted_message tk)
       \<and> s' = \<lparr>tasks_db = (tasks_db s)(tid := None),
               user_tasks = (case user_tasks s u of
                               None \<Rightarrow> user_tasks s
                             | Some ids \<Rightarrow> if tid \<in> set ids
                                           then (user_tasks s)(u \<mapsto> remove1 tid ids)
                                           else user_tasks s)\<rparr>"
  using assms(1)
proof (cases rule: handle_cases)
  case unchanged
  with assms(2,3) show ?thesis by simp
next
  case (created td)
  with assms(2,3) show ?thesis by (simp add: create_task_eq split: if_splits)
next
  case (updated tid' tk' st)
  with assms(2,3) show ?thesis by (simp split: if_splits)
next
  case (deleted tid' tk')
  with assms(2,3) have e: "tid' = tid" by (simp split: if_splits)
  show ?thesis using deleted assms(2) unfolding e by simp
qed

text \<open>
  Claim C1, as amended. A command preserves index integrity provided that, when it
  removes a task from the store, the identifier of that task occurs in no other user's
  index and at most once in the caller's own. A command that removes nothing from the
  store preserves the invariant without condition. A command that removes a task is a
  successful \<open>delete\<close>: it takes that one task out of the store and the first occurrence
  of its identifier out of the index of the calling user, and leaves every other index
  entry as it is; the command \<open>delete t\<close> on a stored \<open>t\<close> does so for every caller.
\<close>

theorem index_integrity_amended:
  "(index_ok s \<and> handle_slack_command e u raw s = (r, s')
      \<and> (\<forall>tid. tasks_db s tid \<noteq> None \<and> tasks_db s' tid = None \<longrightarrow>
           (\<forall>v ids. user_tasks s v = Some ids \<longrightarrow>
              (if v = u then count_list ids tid \<le> 1 else tid \<notin> set ids)))
    \<longrightarrow> index_ok s')
   \<and> (index_ok s \<and> handle_slack_command e u raw s = (r, s')
        \<and> dom (tasks_db s) \<subseteq> dom (tasks_db s')
      \<longrightarrow> index_ok s')
   \<and> (handle_slack_command e u raw s = (r, s') \<and> tasks_db s x = Some tk
        \<and> tasks_db s' x = None
      \<longrightarrow> r = reply ephemeral (deleted_message tk)
          \<and> s' = \<lparr>tasks_db = (tasks_db s)(x := None),
                   user_tasks = (case user_tasks s u of
                                   None \<Rightarrow> user_tasks s
                                 | Some ids \<Rightarrow> if x \<in> set ids
                                               then (user_tasks s)(u \<mapsto> remove1 x ids)
                                               else user_tasks s)\<rparr>)
   \<and> (is_word t \<and> tasks_db s t = Some tk
      \<longrightarrow> handle_slack_command e u (cp ''delete '' @ t) s
            = (reply ephemeral (deleted_message tk),
               \<lparr>tasks_db = (tasks_db s)(t := None),
                 user_tasks = (case user_tasks s u of
                                 None \<Rightarrow> user_tasks s
                               | Some ids \<Rightarrow> if t \<in> set ids
                                             then (user_tasks s)(u \<mapsto> remove1 t ids)
                                             else user_tasks s)\<rparr>))"
proof (intro conjI impI)
  assume "index_ok s \<and> handle_slack_command e u raw s = (r, s')
      \<and> (\<forall>tid. tasks_db s tid \<noteq> None \<and> tasks_db s' tid = None \<longrightarrow>
           (\<forall>v ids. user_tasks s v = Some ids \<longrightarrow>
              (if v = u then count_list ids tid \<le> 1 else tid \<notin> set ids)))"
  then show "index_ok s'" using index_preserved by blast
next
  assume a: "index_ok s \<and> handle_slack_command e u raw s = (r, s')
        \<and> dom (tasks_db s) \<subseteq> dom (tasks_db s')"
  then have "\<forall>tid. tasks_db s tid \<noteq> None \<and> tasks_db s' tid = None \<longrightarrow>
           (\<forall>v ids. user_tasks s v = Some ids \<longrightarrow>
              (if v = u then count_list ids tid \<le> 1 else tid \<notin> set ids))"
    by (auto simp: dom_def)
  with a show "index_ok s'" using index_preserved by blast
next
  assume a: "handle_slack_command e u raw s = (r, s') \<and> tasks_db s x = Some tk
        \<and> tasks_db s' x = None"
  then show "r = reply ephemeral (deleted_message tk)"
    and "s' = \<lparr>tasks_db = (tasks_db s)(x := None),
                   user_tasks = (case user_tasks s u of
                                   None \<Rightarrow> user_tasks s
                                 | Some ids \<Rightarrow> if x \<in> set ids
                                               then (user_tasks s)(u \<mapsto> remove1 x ids)
                                               else user_tasks s)\<rparr>"
    using removal_is_delete[of e u raw s r s' x tk] by simp_all
next
  assume "is_word t \<and> tasks_db s t = Some tk"
  then show "handle_slack_command e u (cp ''delete '' @ t) s
            = (reply ephemeral (deleted_message tk),
               \<lparr>tasks_db = (tasks_db s)(t := None),
                 user_tasks = (case user_tasks s u of
                                 None \<Rightarrow> user_tasks s
                               | Some ids \<Rightarrow> if t \<in> set ids
                                             then (user_tasks s)(u \<mapsto> remove1 t ids)
                                             else user_tasks s)\<rparr>)"
    using delete_existing by blast
qed

text \<open>
  Claim C1 as it is stated fails: after user \<open>U1\<close> has created a task, a
  \<open>delete\<close> of that task by user \<open>U2\<close> empties the store and leaves the identifier in the
  index of \<open>U1\<close>.
\<close>

theorem index_integrity_counterexample:
  "index_ok (run [(ex_env (cp ''0a1b2c3d''), cp ''U1'', cp ''create Buy milk'')] initial_state)
   \<and> \<not> index_ok (run [(ex_env (cp ''0a1b2c3d''), cp ''U1'', cp ''create Buy milk''),
                       (ex_env (cp ''5e6f7a8b''), cp ''U2'', cp ''delete '' @ cp ''0a1b2c3d'')]
                    initial_state)"
proof
  show "index_ok (run [(ex_env (cp ''0a1b2c3d''), cp ''U1'', cp ''create Buy milk'')]
                  initial_state)"
    unfolding state_after_create by (auto simp: index_ok_def split: if_splits)
  have "user_tasks \<lparr>tasks_db = Map.empty, user_tasks = [cp ''U1'' \<mapsto> [cp ''0a1b2c3d'']]\<rparr>
          (cp ''U1'') = Some [cp ''0a1b2c3d'']" by simp
  then show "\<not> index_ok (run [(ex_env (cp ''0a1b2c3d''), cp ''U1'', cp ''create Buy milk''),
                       (ex_env (cp ''5e6f7a8b''), cp ''U2'', cp ''delete '' @ cp ''0a1b2c3d'')]
                    initial_state)"
    unfolding state_after_delete_by_other index_ok_def by fastforce
qed

theorem index_integrity_amended_witness:
  "(let s = \<lparr>tasks_db = [cp ''0a1b2c3d'' \<mapsto> ex_task (cp ''0a1b2c3d'') (cp ''Buy milk'')],
              user_tasks = [cp ''U1'' \<mapsto> [cp ''0a1b2c3d'']]\<rparr>;
        s' = \<lparr>tasks_db = Map.empty, user_tasks = [cp ''U1'' \<mapsto> ([] :: pystr list)]\<rparr>;
        r = reply ephemeral (deleted_message (ex_task (cp ''0a1b2c3d'') (cp ''Buy milk'')))
    in index_ok initial_state
       \<and> handle_slack_command (ex_env (cp ''0a1b2c3d'')) (cp ''U1'') (cp ''create Buy milk'')
            initial_state
           = (reply in_channel
                (format_task_response ex_ucd (ex_task (cp ''0a1b2c3d'') (cp ''Buy milk''))), s)
       \<and> dom (tasks_db initial_state) \<subseteq> dom (tasks_db s)
       \<and> index_ok s
       \<and> is_word (cp ''0a1b2c3d'')
       \<and> tasks_db s (cp ''0a1b2c3d'') = Some (ex_task (cp ''0a1b2c3d'') (cp ''Buy milk''))
       \<and> handle_slack_command (ex_env (cp ''5e6f7a8b'')) (cp ''U1'')
            (cp ''delete '' @ cp ''0a1b2c3d'') s = (r, s')
       \<and> tasks_db s' (cp ''0a1b2c3d'') = None
       \<and> index_ok s')"
proof -
  let ?tk = "ex_task (cp ''0a1b2c3d'') (cp ''Buy milk'')"
  let ?s = "\<lparr>tasks_db = [cp ''0a1b2c3d'' \<mapsto> ?tk],
              user_tasks = [cp ''U1'' \<mapsto> [cp ''0a1b2c3d'']]\<rparr>"
  let ?s' = "\<lparr>tasks_db = Map.empty, user_tasks = [cp ''U1'' \<mapsto> ([]::pystr list)]\<rparr>"
  let ?r = "reply ephemeral (deleted_message ?tk)"
  let ?e1 = "ex_env (cp ''0a1b2c3d'')"
  let ?e2 = "ex_env (cp ''5e6f7a8b'')"
  let ?rc = "reply in_channel (format_task_response ex_ucd ?tk)"
  have ok0: "index_ok initial_state" by (simp add: index_ok_def initial_state_def)
  have c: "handle_slack_command ?e1 (cp ''U1'') (cp ''create Buy milk'') initial_state
           = (?rc, ?s)"
    by (simp add: ex_env_def handle_create_buy_milk ex_task_clock initial_state_def)
  have sub: "dom (tasks_db initial_state) \<subseteq> dom (tasks_db ?s)"
    by (simp add: initial_state_def)
  have ok: "index_ok ?s"
    using index_integrity_amended[of initial_state ?e1 "cp ''U1''" "cp ''create Buy milk''"
        ?rc ?s] ok0 c sub by blast
  have st: "tasks_db ?s (cp ''0a1b2c3d'') = Some ?tk" by simp
  have h: "handle_slack_command ?e2 (cp ''U1'') (cp ''delete '' @ cp ''0a1b2c3d'') ?s
           = (?r, ?s')"
    using index_integrity_amended[of ?s ?e2 "cp ''U1''" "[]" ?r ?s' "[]" ?tk
        "cp ''0a1b2c3d''"] id_word st by simp
  have gone: "tasks_db ?s' (cp ''0a1b2c3d'') = None" by simp
  have eff: "?r = reply ephemeral (deleted_message ?tk) \<and> ?s' = \<lparr>tasks_db =
        (tasks_db ?s)(cp ''0a1b2c3d'' := None),
        user_tasks = (case user_tasks ?s (cp ''U1'') of None \<Rightarrow> user_tasks ?s
           | Some ids \<Rightarrow> if cp ''0a1b2c3d'' \<in> set ids
                then (user_tasks ?s)(cp ''U1'' \<mapsto> remove1 (cp ''0a1b2c3d'') ids)
                else user_tasks ?s)\<rparr>"
    using index_integrity_amended[of ?s ?e2 "cp ''U1''" "cp ''delete '' @ cp ''0a1b2c3d''"
        ?r ?s' "cp ''0a1b2c3d''" ?tk] h st gone by blast
  have safe: "\<forall>tid. tasks_db ?s tid \<noteq> None \<and> tasks_db ?s' tid = None \<longrightarrow>
           (\<forall>v ids. user_tasks ?s v = Some ids \<longrightarrow>
              (if v = cp ''U1'' then count_list ids tid \<le> 1 else tid \<notin> set ids))"
    by (auto split: if_splits)
  have ok': "index_ok ?s'"
    using index_integrity_amended[of ?s ?e2 "cp ''U1''" "cp ''delete '' @ cp ''0a1b2c3d''"
        ?r ?s'] ok h safe by blast
  show ?thesis
    unfolding Let_def using ok0 c sub ok id_word st h gone ok' by blast
qed

lemma pending_title: "py_title U (py_replace [95] [32] (cp ''pending'')) = cp ''Pending''"
proof -
  have 1: "py_replace [95] [32] (cp ''pending'') = cp ''pending''" by code_simp
  have 2: "list_all is_ascii (cp ''pending'')" by code_simp
  have 3: "title_from False (cp ''pending'') = cp ''Pending''" by code_simp
  show ?thesis by (simp add: 1 py_title_def 2 3)
qed

lemma create_stores:
  assumes "split_whitespace 2 (py_strip raw) = parts" "2 \<le> length parts"
    "py_lower (unicode e) (hd parts) = cp ''create''"
  shows "snd (handle_slack_command e u raw s)
     = \<lparr>tasks_db = (tasks_db s)(uuid8 e \<mapsto>
           fst (create_task e u (parse_natural_language e (join [32] (tl parts))) s)),
         user_tasks = (user_tasks s)(u \<mapsto>
           (case user_tasks s u of None \<Rightarrow> [] | Some ids \<Rightarrow> ids) @ [uuid8 e])\<rparr>"
  by (simp add: create_effect[OF assms] create_task_eq)


lemma parts_create_call:
  "split_whitespace 2 (py_strip (cp ''create Call client tomorrow. Discuss contract''))
   = [cp ''create'', cp ''Call'', cp ''client tomorrow. Discuss contract'']"
  by code_simp

lemma ex_env_simps:
  "uuid8 (ex_env tid) = tid" "now (ex_env tid) = ex_now"
  "now_created (ex_env tid) = ex_now" "unicode (ex_env tid) = ex_ucd"
  "dateutil_parse (ex_env tid) x = None" "int_max_str_digits (ex_env tid) = 4300"
  by (simp_all add: ex_env_def ex_env_at_def)

lemma match_call:
  "first_match ex_ucd deadline_patterns (cp ''Call client tomorrow. Discuss contract'')
   = Some (cp ''tomorrow'')"
  by code_simp

lemma remainder_call:
  "py_strip (py_replace (cp ''tomorrow'') [] (cp ''Call client tomorrow. Discuss contract''))
   = cp ''Call client . Discuss contract''"
  by code_simp

lemma td_call:
  "title_description (cp ''Call client . Discuss contract'')
   = (cp ''Call client'', Some (cp ''Discuss contract''))"
  by code_simp

lemma lower_tomorrow: "py_lower ex_ucd (cp ''tomorrow'') = cp ''tomorrow''"
  by code_simp

lemma contains_tomorrow: "contains (cp ''tomorrow'') (cp ''tomorrow'')"
  by code_simp

lemma join_call:
  "cp ''Call'' @ 32 # cp ''client tomorrow. Discuss contract''
   = cp ''Call client tomorrow. Discuss contract''"
  by (simp add: cp_def)

lemma parse_call:
  "parse_natural_language (ex_env (cp ''0a1b2c3d''))
     (cp ''Call'' @ 32 # cp ''client tomorrow. Discuss contract'')
   = \<lparr>data_title = cp ''Call client'', data_description = Some (cp ''Discuss contract''),
       data_deadline = Some \<lparr>ordinal = 738887, hour = 9, minute = 30, second = 15,
                              microsecond = 0\<rparr>\<rparr>"
proof -
  have ne: "cp ''tomorrow'' \<noteq> []" "cp ''Call client'' \<noteq> []" by (simp_all add: cp_def)
  have d: "resolve_deadline (ex_env (cp ''0a1b2c3d'')) (cp ''tomorrow'')
           = Some \<lparr>ordinal = 738887, hour = 9, minute = 30, second = 15, microsecond = 0\<rparr>"
    by (simp add: resolve_deadline_def Let_def ex_env_simps lower_tomorrow
        contains_tomorrow add_days_def max_ordinal_def ex_now_def)
  show ?thesis
    unfolding join_call
    by (simp add: parse_natural_language_def Let_def ex_env_simps match_call
        remainder_def ne remainder_call td_call d)
qed

lemma view_call:
  "format_task_response ex_ucd ex_call_task
   = [0x2705] @ cp '' **Task Created:** Call client'' @ [10]
     @ [0x1F4DD] @ cp '' **ID:** 0a1b2c3d'' @ [10]
     @ [0x1F4CB] @ cp '' **Description:** Discuss contract'' @ [10]
     @ [0x23F0] @ cp '' **Deadline:** 2024-01-02 09:30'' @ [10]
     @ [0x1F4CA] @ cp '' **Status:** Pending'' @ [10]
     @ [0x1F550] @ cp '' **Created:** 2024-01-01 09:30''"
  by code_simp

lemma handle_create_call:
  "handle_slack_command (ex_env (cp ''0a1b2c3d'')) u
     (cp ''create Call client tomorrow. Discuss contract'') s =
     (reply in_channel (format_task_response ex_ucd ex_call_task),
      \<lparr>tasks_db = (tasks_db s)(cp ''0a1b2c3d'' \<mapsto> ex_call_task),
        user_tasks = (user_tasks s)(u \<mapsto>
           (case user_tasks s u of None \<Rightarrow> [] | Some ids \<Rightarrow> ids) @ [cp ''0a1b2c3d''])\<rparr>)"
  by (subst create_effect[OF parts_create_call])
     (simp_all add: ascii_lower parse_call create_task_eq ex_env_simps ex_call_task_def)

text \<open>
  Claim C9. Round trip. When a command is a valid \<open>create\<close> (its first word is
  \<open>create\<close>, in any letter case, and an argument follows), the store then holds, under
  the identifier drawn, a task whose title, description and deadline are the ones the
  extractor produced from the argument text; a \<open>show\<close> command naming that identifier
  (in particular the text \<open>show\<close>, a space and the identifier), by any caller, returns
  the detail view of that very task and leaves the state as it is. The view carries the
  three fields as stored; for \<open>create Call client tomorrow. Discuss contract\<close> at
  2024-01-01 09:30 it is spelled out character by character.
\<close>

theorem create_show_roundtrip:
  "(split_whitespace 2 (py_strip raw) = parts \<and> 2 \<le> length parts
      \<and> py_lower (unicode e) (hd parts) = cp ''create''
      \<and> split_whitespace 2 (py_strip raw2) = parts2 \<and> 2 \<le> length parts2
      \<and> py_lower (unicode e2) (hd parts2) = cp ''show'' \<and> parts2 ! 1 = uuid8 e
    \<longrightarrow> (\<exists>t. tasks_db (snd (handle_slack_command e u raw s)) (uuid8 e) = Some t
          \<and> title t = data_title (parse_natural_language e (join [32] (tl parts)))
          \<and> description t
              = data_description (parse_natural_language e (join [32] (tl parts)))
          \<and> deadline t = data_deadline (parse_natural_language e (join [32] (tl parts)))
          \<and> handle_slack_command e2 u2 raw2 (snd (handle_slack_command e u raw s))
              = (reply ephemeral (format_task_response (unicode e2) t),
                 snd (handle_slack_command e u raw s))
          \<and> format_task_response (unicode e2) t
              = [0x2705] @ cp '' **Task Created:** '' @ title t @ [10]
                @ [0x1F4DD] @ cp '' **ID:** '' @ uuid8 e @ [10]
                @ (case description t of None \<Rightarrow> []
                   | Some d \<Rightarrow> if d \<noteq> []
                       then [0x1F4CB] @ cp '' **Description:** '' @ d @ [10] else [])
                @ (case deadline t of None \<Rightarrow> []
                   | Some d \<Rightarrow> [0x23F0] @ cp '' **Deadline:** '' @ strftime_long d @ [10])
                @ [0x1F4CA] @ cp '' **Status:** Pending'' @ [10]
                @ [0x1F550] @ cp '' **Created:** '' @ strftime_long (now_created e)))
   \<and> (is_hex8 (uuid8 e)
      \<longrightarrow> split_whitespace 2 (py_strip (cp ''show '' @ uuid8 e)) = [cp ''show'', uuid8 e]
          \<and> py_lower (unicode e2) (cp ''show'') = cp ''show'')
   \<and> (let s1 = snd (handle_slack_command (ex_env (cp ''0a1b2c3d'')) (cp ''U1'')
                      (cp ''create Call client tomorrow. Discuss contract'') initial_state)
      in handle_slack_command (ex_env (cp ''5e6f7a8b'')) (cp ''U1'')
            (cp ''show 0a1b2c3d'') s1
         = (reply ephemeral
              ([0x2705] @ cp '' **Task Created:** Call client'' @ [10]
               @ [0x1F4DD] @ cp '' **ID:** 0a1b2c3d'' @ [10]
               @ [0x1F4CB] @ cp '' **Description:** Discuss contract'' @ [10]
               @ [0x23F0] @ cp '' **Deadline:** 2024-01-02 09:30'' @ [10]
               @ [0x1F4CA] @ cp '' **Status:** Pending'' @ [10]
               @ [0x1F550] @ cp '' **Created:** 2024-01-01 09:30''), s1))"
proof (intro conjI impI)
  assume a: "split_whitespace 2 (py_strip raw) = parts \<and> 2 \<le> length parts
      \<and> py_lower (unicode e) (hd parts) = cp ''create''
      \<and> split_whitespace 2 (py_strip raw2) = parts2 \<and> 2 \<le> length parts2
      \<and> py_lower (unicode e2) (hd parts2) = cp ''show'' \<and> parts2 ! 1 = uuid8 e"
  then have c: "split_whitespace 2 (py_strip raw) = parts" "2 \<le> length parts"
      "py_lower (unicode e) (hd parts) = cp ''create''"
    and sh: "split_whitespace 2 (py_strip raw2) = parts2" "2 \<le> length parts2"
      "py_lower (unicode e2) (hd parts2) = cp ''show''"
    and tid: "parts2 ! 1 = uuid8 e" by simp_all
  let ?td = "parse_natural_language e (join [32] (tl parts))"
  let ?t = "fst (create_task e u ?td s)"
  let ?s1 = "snd (handle_slack_command e u raw s)"
  have st: "tasks_db ?s1 (uuid8 e) = Some ?t"
    by (simp add: create_stores[OF c])
  have shw: "handle_slack_command e2 u2 raw2 ?s1
            = (reply ephemeral (format_task_response (unicode e2) ?t), ?s1)"
    using sh(2) st
    by (simp add: handle_show[OF sh] action_show_def tid[unfolded One_nat_def] Let_def)
  have f: "title ?t = data_title ?td" "description ?t = data_description ?td"
    "deadline ?t = data_deadline ?td"
    by (simp_all add: create_task_eq)
  have view: "format_task_response (unicode e2) ?t
              = [0x2705] @ cp '' **Task Created:** '' @ title ?t @ [10]
                @ [0x1F4DD] @ cp '' **ID:** '' @ uuid8 e @ [10]
                @ (case description ?t of None \<Rightarrow> []
                   | Some d \<Rightarrow> if d \<noteq> []
                       then [0x1F4CB] @ cp '' **Description:** '' @ d @ [10] else [])
                @ (case deadline ?t of None \<Rightarrow> []
                   | Some d \<Rightarrow> [0x23F0] @ cp '' **Deadline:** '' @ strftime_long d @ [10])
                @ [0x1F4CA] @ cp '' **Status:** Pending'' @ [10]
                @ [0x1F550] @ cp '' **Created:** '' @ strftime_long (now_created e)"
    by (simp only: format_task_response_def create_task_eq fst_conv task.simps pending_title)
       (simp add: newline_def e_check_def e_memo_def e_clipboard_def e_alarm_def
          e_chart_def e_clock_def cp_def split: option.splits)
  show "\<exists>t. tasks_db ?s1 (uuid8 e) = Some t
          \<and> title t = data_title ?td \<and> description t = data_description ?td
          \<and> deadline t = data_deadline ?td
          \<and> handle_slack_command e2 u2 raw2 ?s1
              = (reply ephemeral (format_task_response (unicode e2) t), ?s1)
          \<and> format_task_response (unicode e2) t
              = [0x2705] @ cp '' **Task Created:** '' @ title t @ [10]
                @ [0x1F4DD] @ cp '' **ID:** '' @ uuid8 e @ [10]
                @ (case description t of None \<Rightarrow> []
                   | Some d \<Rightarrow> if d \<noteq> []
                       then [0x1F4CB] @ cp '' **Description:** '' @ d @ [10] else [])
                @ (case deadline t of None \<Rightarrow> []
                   | Some d \<Rightarrow> [0x23F0] @ cp '' **Deadline:** '' @ strftime_long d @ [10])
                @ [0x1F4CA] @ cp '' **Status:** Pending'' @ [10]
                @ [0x1F550] @ cp '' **Created:** '' @ strftime_long (now_created e)"
    using st f shw view by blast
next
  assume "is_hex8 (uuid8 e)"
  then have "is_word (uuid8 e)" by (rule hex8_word)
  then show "split_whitespace 2 (py_strip (cp ''show '' @ uuid8 e)) = [cp ''show'', uuid8 e]"
    by (rule parts_show)
next
  show "py_lower (unicode e2) (cp ''show'') = cp ''show''" by (rule ascii_lower)
next
  have s1: "snd (handle_slack_command (ex_env (cp ''0a1b2c3d'')) (cp ''U1'')
                      (cp ''create Call client tomorrow. Discuss contract'') initial_state)
      = \<lparr>tasks_db = [cp ''0a1b2c3d'' \<mapsto> ex_call_task],
         user_tasks = [cp ''U1'' \<mapsto> [cp ''0a1b2c3d'']]\<rparr>"
    by (simp add: handle_create_call initial_state_def)
  have c: "cp ''show 0a1b2c3d'' = cp ''show '' @ cp ''0a1b2c3d''" by (simp add: cp_def)
  show "let s1 = snd (handle_slack_command (ex_env (cp ''0a1b2c3d'')) (cp ''U1'')
                      (cp ''create Call client tomorrow. Discuss contract'') initial_state)
      in handle_slack_command (ex_env (cp ''5e6f7a8b'')) (cp ''U1'')
            (cp ''show 0a1b2c3d'') s1
         = (reply ephemeral
              ([0x2705] @ cp '' **Task Created:** Call client'' @ [10]
               @ [0x1F4DD] @ cp '' **ID:** 0a1b2c3d'' @ [10]
               @ [0x1F4CB] @ cp '' **Description:** Discuss contract'' @ [10]
               @ [0x23F0] @ cp '' **Deadline:** 2024-01-02 09:30'' @ [10]
               @ [0x1F4CA] @ cp '' **Status:** Pending'' @ [10]
               @ [0x1F550] @ cp '' **Created:** 2024-01-01 09:30''), s1)"
    unfolding s1 Let_def c
    by (subst show_existing[OF _ id_word, of _ ex_call_task])
       (simp_all only: ex_env_simps view_call state.simps fun_upd_same)
qed

theorem create_show_roundtrip_witness:
  "split_whitespace 2 (py_strip (cp ''create Call client tomorrow. Discuss contract''))
     = [cp ''create'', cp ''Call'', cp ''client tomorrow. Discuss contract'']
   \<and> py_lower ex_ucd (cp ''create'') = cp ''create''
   \<and> is_hex8 (cp ''0a1b2c3d'')
   \<and> split_whitespace 2 (py_strip (cp ''show '' @ cp ''0a1b2c3d''))
       = [cp ''show'', cp ''0a1b2c3d'']
   \<and> py_lower ex_ucd (cp ''show'') = cp ''show''
   \<and> (\<exists>t. tasks_db (snd (handle_slack_command (ex_env (cp ''0a1b2c3d'')) (cp ''U1'')
                 (cp ''create Call client tomorrow. Discuss contract'') initial_state))
              (cp ''0a1b2c3d'') = Some t
      \<and> title t = cp ''Call client'' \<and> description t = Some (cp ''Discuss contract'')
      \<and> deadline t = Some \<lparr>ordinal = 738887, hour = 9, minute = 30, second = 15,
                             microsecond = 0\<rparr>
      \<and> handle_slack_command (ex_env (cp ''5e6f7a8b'')) (cp ''U2'')
           (cp ''show '' @ cp ''0a1b2c3d'')
           (snd (handle_slack_command (ex_env (cp ''0a1b2c3d'')) (cp ''U1'')
                 (cp ''create Call client tomorrow. Discuss contract'') initial_state))
         = (reply ephemeral (format_task_response ex_ucd t),
            snd (handle_slack_command (ex_env (cp ''0a1b2c3d'')) (cp ''U1'')
                 (cp ''create Call client tomorrow. Discuss contract'') initial_state)))"
proof -
  let ?e = "ex_env (cp ''0a1b2c3d'')"
  let ?e2 = "ex_env (cp ''5e6f7a8b'')"
  let ?raw = "cp ''create Call client tomorrow. Discuss contract''"
  let ?parts = "[cp ''create'', cp ''Call'', cp ''client tomorrow. Discuss contract'']"
  let ?raw2 = "cp ''show '' @ cp ''0a1b2c3d''"
  let ?parts2 = "[cp ''show'', cp ''0a1b2c3d'']"
  have hex: "is_hex8 (cp ''0a1b2c3d'')" by (simp add: is_hex8_def cp_def)
  have hex': "is_hex8 (uuid8 ?e)" using hex by (simp add: ex_env_simps)
  note T = create_show_roundtrip[of ?raw ?parts ?e ?raw2 ?parts2 ?e2 "cp ''U1''" initial_state
      "cp ''U2''"]
  have p2: "split_whitespace 2 (py_strip ?raw2) = ?parts2"
    and l2: "py_lower ex_ucd (cp ''show'') = cp ''show''"
    using T hex' by (simp_all add: ex_env_simps)
  have l1: "py_lower ex_ucd (cp ''create'') = cp ''create''" by (rule ascii_lower)
  have hyp: "split_whitespace 2 (py_strip ?raw) = ?parts \<and> 2 \<le> length ?parts
      \<and> py_lower (unicode ?e) (hd ?parts) = cp ''create''
      \<and> split_whitespace 2 (py_strip ?raw2) = ?parts2 \<and> 2 \<le> length ?parts2
      \<and> py_lower (unicode ?e2) (hd ?parts2) = cp ''show'' \<and> ?parts2 ! 1 = uuid8 ?e"
    using parts_create_call p2 l1 l2 by (simp add: ex_env_simps)
  from T hyp obtain t where t:
    "tasks_db (snd (handle_slack_command ?e (cp ''U1'') ?raw initial_state)) (uuid8 ?e) = Some t"
    "title t = data_title (parse_natural_language ?e (join [32] (tl ?parts)))"
    "description t = data_description (parse_natural_language ?e (join [32] (tl ?parts)))"
    "deadline t = data_deadline (parse_natural_language ?e (join [32] (tl ?parts)))"
    "handle_slack_command ?e2 (cp ''U2'') ?raw2
        (snd (handle_slack_command ?e (cp ''U1'') ?raw initial_state))
     = (reply ephemeral (format_task_response (unicode ?e2) t),
        snd (handle_slack_command ?e (cp ''U1'') ?raw initial_state))"
    by blast
  have j: "join [32] (tl ?parts) = cp ''Call'' @ 32 # cp ''client tomorrow. Discuss contract''"
    by simp
  have "tasks_db (snd (handle_slack_command ?e (cp ''U1'') ?raw initial_state))
              (cp ''0a1b2c3d'') = Some t
      \<and> title t = cp ''Call client'' \<and> description t = Some (cp ''Discuss contract'')
      \<and> deadline t = Some \<lparr>ordinal = 738887, hour = 9, minute = 30, second = 15,
                             microsecond = 0\<rparr>
      \<and> handle_slack_command ?e2 (cp ''U2'') ?raw2
           (snd (handle_slack_command ?e (cp ''U1'') ?raw initial_state))
         = (reply ephemeral (format_task_response ex_ucd t),
            snd (handle_slack_command ?e (cp ''U1'') ?raw initial_state))"
    using t unfolding j parse_call by (simp add: ex_env_simps)
  then show ?thesis using parts_create_call l1 hex p2 l2 by blast
qed

text \<open>
  Claim C8. The field frame fails in the code at a collision of identifiers, the defect
  of claim C3: \<open>create_task\<close> assigns \<open>tasks_db[task_id]\<close> whatever the store holds. The
  first creation stores a task with status \<open>pending\<close> and \<open>created_at\<close> equal to the clock
  reading 2024-01-01 09:30:15; a second creation, at 2024-03-05 17:45:00, that draws the
  same identifier leaves under it a task with another \<open>created_at\<close> and another title.
\<close>

theorem created_at_replaced:
  "(let s1 = snd (handle_slack_command (ex_env_at ex_now (cp ''0a1b2c3d'')) (cp ''U1'')
                    (cp ''create Buy milk'') initial_state);
        s2 = snd (handle_slack_command (ex_env_at ex_later (cp ''0a1b2c3d'')) (cp ''U2'')
                    (cp ''create Walk dog'') s1)
    in map_option status (tasks_db s1 (cp ''0a1b2c3d'')) = Some (cp ''pending'')
       \<and> map_option created_at (tasks_db s1 (cp ''0a1b2c3d'')) = Some ex_now
       \<and> map_option title (tasks_db s1 (cp ''0a1b2c3d'')) = Some (cp ''Buy milk'')
       \<and> map_option created_at (tasks_db s2 (cp ''0a1b2c3d'')) = Some ex_later
       \<and> map_option title (tasks_db s2 (cp ''0a1b2c3d'')) = Some (cp ''Walk dog'')
       \<and> ex_later \<noteq> ex_now)"
  by (simp add: Let_def handle_create_buy_milk handle_create_walk_dog ex_task_def
      ex_now_def ex_later_def)

lemma list_step_append: "list_step s resp tid = resp @ list_step s [] tid"
  by (simp add: list_step_def split: option.splits)

lemma foldl_list_step:
  "foldl (list_step s) resp ids = resp @ concat (map (list_step s []) ids)"
proof (induction ids arbitrary: resp)
  case Nil
  show ?case by simp
next
  case (Cons tid ids)
  have "foldl (list_step s) resp (tid # ids) = foldl (list_step s) (list_step s resp tid) ids"
    by simp
  also have "\<dots> = list_step s resp tid @ concat (map (list_step s []) ids)"
    by (rule Cons.IH)
  also have "\<dots> = resp @ list_step s [] tid @ concat (map (list_step s []) ids)"
    by (subst list_step_append) simp
  finally show ?case by simp
qed

lemma list_step_empty_iff: "(list_step s [] tid = []) = (tasks_db s tid = None)"
  by (simp add: list_step_def split: option.splits)

lemma handle_list:
  assumes "split_whitespace 2 (py_strip raw) = parts" "parts \<noteq> []"
    "py_lower (unicode e) (hd parts) = cp ''list''"
  shows "handle_slack_command e u raw s = (reply ephemeral (list_user_tasks u s), s)"
proof -
  have "py_strip raw \<noteq> []" using assms(1,2) split_nonempty by blast
  moreover have "cp ''list'' \<noteq> cp ''create''" by (simp add: cp_def)
  ultimately show ?thesis
    using assms unfolding handle_slack_command_def Let_def by simp
qed

lemma parts_list: "split_whitespace 2 (py_strip (cp ''list'')) = [cp ''list'']"
  by code_simp

lemma state_after_create_call:
  "run [(ex_env (cp ''0a1b2c3d''), cp ''U1'',
         cp ''create Call client tomorrow. Discuss contract'')] initial_state
   = \<lparr>tasks_db = [cp ''0a1b2c3d'' \<mapsto> ex_call_task],
       user_tasks = [cp ''U1'' \<mapsto> [cp ''0a1b2c3d'']]\<rparr>"
  by (simp add: handle_create_call initial_state_def)

lemma line_call:
  "list_step \<lparr>tasks_db = [cp ''0a1b2c3d'' \<mapsto> ex_call_task],
       user_tasks = [cp ''U1'' \<mapsto> [cp ''0a1b2c3d'']]\<rparr> [] (cp ''0a1b2c3d'')
   = [0x23F3] @ cp '' **0a1b2c3d** - Call client (Due: 01/02)'' @ [10]"
proof -
  have "status_emoji (status ex_call_task) @ cp '' **'' @ task_id ex_call_task @ cp ''** - ''
          @ title ex_call_task
          @ (case deadline ex_call_task of None \<Rightarrow> []
             | Some d \<Rightarrow> cp '' (Due: '' @ strftime_short d @ cp '')'')
          @ [newline]
        = [0x23F3] @ cp '' **0a1b2c3d** - Call client (Due: 01/02)'' @ [10]"
    by code_simp
  then show ?thesis by (simp add: list_step_def)
qed

lemma str_nat_examples: "str_nat 1 = cp ''1''" "str_nat 12 = cp ''12''"
  by code_simp+

text \<open>
  Claim C10. The header of \<open>list\<close> shows the length of the caller's index entry, in
  decimal, whereas the body has one line (status mark, identifier, title, the deadline
  as month and day when there is one) for each indexed identifier that is still in the
  store and nothing for the others; so the number of lines is the number of indexed
  identifiers still stored, which is at most the count shown. And a state is reachable
  in which the count exceeds the number of lines: after \<open>U1\<close> has created a task and \<open>U2\<close>
  has deleted it, the listing of \<open>U1\<close> announces one task and has no line, whereas before
  the deletion it announces one task and has one line.
\<close>

theorem list_count_exceeds_lines:
  "(split_whitespace 2 (py_strip raw) = parts \<and> parts \<noteq> []
      \<and> py_lower (unicode e) (hd parts) = cp ''list''
      \<and> user_tasks s u = Some ids \<and> ids \<noteq> []
    \<longrightarrow> handle_slack_command e u raw s
          = (reply ephemeral
               ([0x1F4CB] @ cp '' **Your Tasks ('' @ str_nat (length ids) @ cp ''):**''
                @ [10, 10]
                @ concat (map (list_step s []) ids)
                @ [10, 0x1F4A1] @ cp '' Use `/task show <task_id>` to see details or ''
                @ cp ''`/task update <task_id> <status>` to update status.''), s)
        \<and> (\<forall>tid. list_step s [] tid
               = (case tasks_db s tid of None \<Rightarrow> []
                  | Some t \<Rightarrow>
                      (if status t = cp ''pending'' then [0x23F3]
                       else if status t = cp ''in_progress'' then [0x1F504]
                       else if status t = cp ''completed'' then [0x2705]
                       else [0x2753])
                      @ cp '' **'' @ task_id t @ cp ''** - '' @ title t
                      @ (case deadline t of None \<Rightarrow> []
                         | Some d \<Rightarrow> cp '' (Due: '' @ strftime_short d @ cp '')'')
                      @ [10]))
        \<and> length (filter (\<lambda>tid. list_step s [] tid \<noteq> []) ids)
            = length (filter (\<lambda>tid. tasks_db s tid \<noteq> None) ids)
        \<and> length (filter (\<lambda>tid. tasks_db s tid \<noteq> None) ids) \<le> length ids)
   \<and> (let s1 = run [(ex_env (cp ''0a1b2c3d''), cp ''U1'',
                      cp ''create Call client tomorrow. Discuss contract'')] initial_state
      in user_tasks s1 (cp ''U1'') = Some [cp ''0a1b2c3d'']
         \<and> handle_slack_command (ex_env (cp ''5e6f7a8b'')) (cp ''U1'') (cp ''list'') s1
           = (reply ephemeral
               ([0x1F4CB] @ cp '' **Your Tasks (1):**'' @ [10, 10]
                @ [0x23F3] @ cp '' **0a1b2c3d** - Call client (Due: 01/02)'' @ [10]
                @ [10, 0x1F4A1] @ cp '' Use `/task show <task_id>` to see details or ''
                @ cp ''`/task update <task_id> <status>` to update status.''), s1))
   \<and> (let s2 = run [(ex_env (cp ''0a1b2c3d''), cp ''U1'', cp ''create Buy milk''),
                     (ex_env (cp ''5e6f7a8b''), cp ''U2'', cp ''delete '' @ cp ''0a1b2c3d'')]
                  initial_state
      in user_tasks s2 (cp ''U1'') = Some [cp ''0a1b2c3d'']
         \<and> tasks_db s2 (cp ''0a1b2c3d'') = None
         \<and> length (filter (\<lambda>tid. list_step s2 [] tid \<noteq> []) [cp ''0a1b2c3d''])
             < length [cp ''0a1b2c3d'']
         \<and> handle_slack_command (ex_env (cp ''5e6f7a8b'')) (cp ''U1'') (cp ''list'') s2
           = (reply ephemeral
               ([0x1F4CB] @ cp '' **Your Tasks (1):**'' @ [10, 10]
                @ [10, 0x1F4A1] @ cp '' Use `/task show <task_id>` to see details or ''
                @ cp ''`/task update <task_id> <status>` to update status.''), s2))
   \<and> list_user_tasks u \<lparr>tasks_db = Map.empty, user_tasks = [u \<mapsto> replicate 12 x]\<rparr>
       = [0x1F4CB] @ cp '' **Your Tasks (12):**'' @ [10, 10]
         @ [10, 0x1F4A1] @ cp '' Use `/task show <task_id>` to see details or ''
         @ cp ''`/task update <task_id> <status>` to update status.''"
proof (intro conjI impI allI)
  assume a: "split_whitespace 2 (py_strip raw) = parts \<and> parts \<noteq> []
      \<and> py_lower (unicode e) (hd parts) = cp ''list''
      \<and> user_tasks s u = Some ids \<and> ids \<noteq> []"
  then have h: "handle_slack_command e u raw s = (reply ephemeral (list_user_tasks u s), s)"
    by (simp add: handle_list)
  have "list_user_tasks u s
      = list_header (length ids) @ concat (map (list_step s []) ids) @ list_footer"
    using a by (simp add: list_user_tasks_def foldl_list_step)
  then show "handle_slack_command e u raw s
          = (reply ephemeral
               ([0x1F4CB] @ cp '' **Your Tasks ('' @ str_nat (length ids) @ cp ''):**''
                @ [10, 10]
                @ concat (map (list_step s []) ids)
                @ [10, 0x1F4A1] @ cp '' Use `/task show <task_id>` to see details or ''
                @ cp ''`/task update <task_id> <status>` to update status.''), s)"
    unfolding h
    by (simp add: list_header_def list_footer_def e_clipboard_def e_bulb_def newline_def)
next
  fix tid
  show "list_step s [] tid
               = (case tasks_db s tid of None \<Rightarrow> []
                  | Some t \<Rightarrow>
                      (if status t = cp ''pending'' then [0x23F3]
                       else if status t = cp ''in_progress'' then [0x1F504]
                       else if status t = cp ''completed'' then [0x2705]
                       else [0x2753])
                      @ cp '' **'' @ task_id t @ cp ''** - '' @ title t
                      @ (case deadline t of None \<Rightarrow> []
                         | Some d \<Rightarrow> cp '' (Due: '' @ strftime_short d @ cp '')'')
                      @ [10])"
    by (simp add: list_step_def status_emoji_def e_hourglass_def e_arrows_def e_check_def
        e_question_def newline_def split: option.splits)
next
  show "length (filter (\<lambda>tid. list_step s [] tid \<noteq> []) ids)
            = length (filter (\<lambda>tid. tasks_db s tid \<noteq> None) ids)"
    by (simp add: list_step_empty_iff)
next
  show "length (filter (\<lambda>tid. tasks_db s tid \<noteq> None) ids) \<le> length ids"
    by (rule length_filter_le)
next
  have l: "py_lower (unicode (ex_env (cp ''5e6f7a8b''))) (hd [cp ''list'']) = cp ''list''"
    by (simp add: ascii_lower)
  show "let s1 = run [(ex_env (cp ''0a1b2c3d''), cp ''U1'',
                      cp ''create Call client tomorrow. Discuss contract'')] initial_state
      in user_tasks s1 (cp ''U1'') = Some [cp ''0a1b2c3d'']
         \<and> handle_slack_command (ex_env (cp ''5e6f7a8b'')) (cp ''U1'') (cp ''list'') s1
           = (reply ephemeral
               ([0x1F4CB] @ cp '' **Your Tasks (1):**'' @ [10, 10]
                @ [0x23F3] @ cp '' **0a1b2c3d** - Call client (Due: 01/02)'' @ [10]
                @ [10, 0x1F4A1] @ cp '' Use `/task show <task_id>` to see details or ''
                @ cp ''`/task update <task_id> <status>` to update status.''), s1)"
    unfolding state_after_create_call Let_def
    apply (subst handle_list[OF parts_list _ l])
     apply simp
    apply (simp only: list_user_tasks_def foldl_list_step)
    apply (simp add: line_call)
    apply (simp add: list_header_def list_footer_def e_clipboard_def e_bulb_def newline_def
        str_nat_examples cp_def)
    done
next
  have l: "py_lower (unicode (ex_env (cp ''5e6f7a8b''))) (hd [cp ''list'']) = cp ''list''"
    by (simp add: ascii_lower)
  show "let s2 = run [(ex_env (cp ''0a1b2c3d''), cp ''U1'', cp ''create Buy milk''),
                     (ex_env (cp ''5e6f7a8b''), cp ''U2'', cp ''delete '' @ cp ''0a1b2c3d'')]
                  initial_state
      in user_tasks s2 (cp ''U1'') = Some [cp ''0a1b2c3d'']
         \<and> tasks_db s2 (cp ''0a1b2c3d'') = None
         \<and> length (filter (\<lambda>tid. list_step s2 [] tid \<noteq> []) [cp ''0a1b2c3d''])
             < length [cp ''0a1b2c3d'']
         \<and> handle_slack_command (ex_env (cp ''5e6f7a8b'')) (cp ''U1'') (cp ''list'') s2
           = (reply ephemeral
               ([0x1F4CB] @ cp '' **Your Tasks (1):**'' @ [10, 10]
                @ [10, 0x1F4A1] @ cp '' Use `/task show <task_id>` to see details or ''
                @ cp ''`/task update <task_id> <status>` to update status.''), s2)"
    unfolding state_after_delete_by_other Let_def
    apply (subst handle_list[OF parts_list _ l])
     apply simp
    apply (simp only: list_user_tasks_def foldl_list_step)
    apply (simp add: list_step_def)
    apply (simp add: list_header_def list_footer_def e_clipboard_def e_bulb_def newline_def
        str_nat_examples cp_def)
    done
next
  show "list_user_tasks u \<lparr>tasks_db = Map.empty, user_tasks = [u \<mapsto> replicate 12 x]\<rparr>
       = [0x1F4CB] @ cp '' **Your Tasks (12):**'' @ [10, 10]
         @ [10, 0x1F4A1] @ cp '' Use `/task show <task_id>` to see details or ''
         @ cp ''`/task update <task_id> <status>` to update status.''"
  proof -
    have "list_user_tasks u \<lparr>tasks_db = Map.empty, user_tasks = [u \<mapsto> replicate 12 x]\<rparr>
       = list_header 12 @ list_footer"
      by (simp add: list_user_tasks_def foldl_list_step list_step_def)
    then show ?thesis
      by (simp add: list_header_def list_footer_def e_clipboard_def e_bulb_def newline_def
          str_nat_examples cp_def)
  qed
qed

theorem list_count_exceeds_lines_witness:
  "(let s2 = \<lparr>tasks_db = Map.empty, user_tasks = [cp ''U1'' \<mapsto> [cp ''0a1b2c3d'']]\<rparr>
    in split_whitespace 2 (py_strip (cp ''list'')) = [cp ''list'']
       \<and> [cp ''list''] \<noteq> []
       \<and> py_lower ex_ucd (hd [cp ''list'']) = cp ''list''
       \<and> user_tasks s2 (cp ''U1'') = Some [cp ''0a1b2c3d''] \<and> [cp ''0a1b2c3d''] \<noteq> []
       \<and> handle_slack_command (ex_env (cp ''5e6f7a8b'')) (cp ''U1'') (cp ''list'') s2
           = (reply ephemeral
               ([0x1F4CB] @ cp '' **Your Tasks ('' @ str_nat 1 @ cp ''):**'' @ [10, 10]
                @ concat (map (list_step s2 []) [cp ''0a1b2c3d''])
                @ [10, 0x1F4A1] @ cp '' Use `/task show <task_id>` to see details or ''
                @ cp ''`/task update <task_id> <status>` to update status.''), s2)
       \<and> list_step s2 [] (cp ''0a1b2c3d'') = []
       \<and> length (filter (\<lambda>tid. list_step s2 [] tid \<noteq> []) [cp ''0a1b2c3d'']) = 0)"
proof -
  let ?s = "\<lparr>tasks_db = Map.empty, user_tasks = [cp ''U1'' \<mapsto> [cp ''0a1b2c3d'']]\<rparr>"
  let ?e = "ex_env (cp ''5e6f7a8b'')"
  have l: "py_lower ex_ucd (hd [cp ''list'']) = cp ''list''" by (simp add: ascii_lower)
  have a: "split_whitespace 2 (py_strip (cp ''list'')) = [cp ''list''] \<and> [cp ''list''] \<noteq> []
      \<and> py_lower (unicode ?e) (hd [cp ''list'']) = cp ''list''
      \<and> user_tasks ?s (cp ''U1'') = Some [cp ''0a1b2c3d''] \<and> [cp ''0a1b2c3d''] \<noteq> []"
    using parts_list l by (simp add: ex_env_simps)
  note T = list_count_exceeds_lines[of "cp ''list''" "[cp ''list'']" ?e ?s "cp ''U1''"
      "[cp ''0a1b2c3d'']"]
  from T a have 1: "handle_slack_command ?e (cp ''U1'') (cp ''list'') ?s
          = (reply ephemeral
               ([0x1F4CB] @ cp '' **Your Tasks ('' @ str_nat (length [cp ''0a1b2c3d''])
                @ cp ''):**'' @ [10, 10]
                @ concat (map (list_step ?s []) [cp ''0a1b2c3d''])
                @ [10, 0x1F4A1] @ cp '' Use `/task show <task_id>` to see details or ''
                @ cp ''`/task update <task_id> <status>` to update status.''), ?s)"
    and 2: "\<forall>tid. list_step ?s [] tid
               = (case tasks_db ?s tid of None \<Rightarrow> []
                  | Some t \<Rightarrow>
                      (if status t = cp ''pending'' then [0x23F3]
                       else if status t = cp ''in_progress'' then [0x1F504]
                       else if status t = cp ''completed'' then [0x2705]
                       else [0x2753])
                      @ cp '' **'' @ task_id t @ cp ''** - '' @ title t
                      @ (case deadline t of None \<Rightarrow> []
                         | Some d \<Rightarrow> cp '' (Due: '' @ strftime_short d @ cp '')'')
                      @ [10])"
    and 3: "length (filter (\<lambda>tid. list_step ?s [] tid \<noteq> []) [cp ''0a1b2c3d''])
            = length (filter (\<lambda>tid. tasks_db ?s tid \<noteq> None) [cp ''0a1b2c3d''])"
    by blast+
  have 4: "list_step ?s [] (cp ''0a1b2c3d'') = []" using 2 by simp
  have 5: "length (filter (\<lambda>tid. list_step ?s [] tid \<noteq> []) [cp ''0a1b2c3d'']) = 0"
    using 3 by simp
  have h1: "handle_slack_command ?e (cp ''U1'') (cp ''list'') ?s
          = (reply ephemeral
               ([0x1F4CB] @ cp '' **Your Tasks ('' @ str_nat 1 @ cp ''):**'' @ [10, 10]
                @ concat (map (list_step ?s []) [cp ''0a1b2c3d''])
                @ [10, 0x1F4A1] @ cp '' Use `/task show <task_id>` to see details or ''
                @ cp ''`/task update <task_id> <status>` to update status.''), ?s)"
    using 1 by simp
  show ?thesis unfolding Let_def using parts_list l a h1 4 5 by blast
qed

section \<open>Facts about the extractor\<close>

lemma rep_counts_bounds:
  "i \<in> set (rep_counts U k lo hi s) \<Longrightarrow> lo \<le> i \<and> i \<le> length s"
proof -
  assume a: "i \<in> set (rep_counts U k lo hi s)"
  have l: "length (takeWhile (in_class U k) s) \<le> length s" by (rule length_takeWhile_le)
  from a l show ?thesis
    by (cases hi) (auto simp: rep_counts_def Let_def)
qed

lemma residuals_length:
  "rest \<in> set (residuals U r s) \<Longrightarrow> length rest + min_len r \<le> length s"
proof (induction r arbitrary: s rest)
  case (Lit l)
  then have "length l \<le> length s" and r: "rest = drop (length l) s"
    by (auto split: if_splits)
  with r show ?case by simp
next
  case (Rep k lo hi)
  then obtain i where i: "i \<in> set (rep_counts U k lo hi s)" and r: "rest = drop i s" by auto
  from rep_counts_bounds[OF i] have "lo \<le> i" "i \<le> length s" by simp_all
  moreover have "length rest = length s - i" using r by simp
  ultimately show ?case by simp
next
  case (RepLazy k lo hi)
  then obtain i where i: "i \<in> set (rep_counts U k lo hi s)" and r: "rest = drop i s" by auto
  from rep_counts_bounds[OF i] have "lo \<le> i" "i \<le> length s" by simp_all
  moreover have "length rest = length s - i" using r by simp
  ultimately show ?case by simp
next
  case (Cat r1 r2)
  then obtain mid where m: "mid \<in> set (residuals U r1 s)" "rest \<in> set (residuals U r2 mid)"
    by auto
  from Cat.IH(1)[OF m(1)] Cat.IH(2)[OF m(2)] show ?case by simp
next
  case (Alt r1 r2)
  then have "rest \<in> set (residuals U r1 s) \<or> rest \<in> set (residuals U r2 s)" by simp
  with Alt.IH show ?case by fastforce
next
  case (Opt r)
  then have "rest \<in> set (residuals U r s) \<or> rest = s" by auto
  with Opt.IH show ?case by fastforce
next
  case EndAnchor
  then show ?case by (auto split: if_splits)
qed

lemma re_search_occurs:
  "re_search U r s = Some m \<Longrightarrow> (\<exists>a b. s = a @ m @ b) \<and> min_len r \<le> length m"
proof (induction s)
  case Nil
  then obtain rest where "rest \<in> set (residuals U r [])" and m: "m = []"
    by (auto split: list.splits)
  from residuals_length[OF this(1)] m show ?case by simp
next
  case (Cons c cs)
  show ?case
  proof (cases "residuals U r (c # cs)")
    case Nil
    with Cons.prems have "re_search U r cs = Some m" by simp
    from Cons.IH[OF this] obtain a b where "cs = a @ m @ b" and l: "min_len r \<le> length m"
      by blast
    then have "c # cs = (c # a) @ m @ b" by simp
    with l show ?thesis by blast
  next
    case (Cons rest rs)
    with Cons.prems have m: "m = take (length (c # cs) - length rest) (c # cs)" by simp
    have "rest \<in> set (residuals U r (c # cs))" using Cons by simp
    from residuals_length[OF this] have le: "length rest + min_len r \<le> length (c # cs)" .
    have "c # cs = [] @ m @ drop (length (c # cs) - length rest) (c # cs)"
      unfolding m by simp
    moreover from le have "min_len r \<le> length m" unfolding m by simp
    ultimately show ?thesis by blast
  qed
qed

lemma first_match_occurs:
  "first_match U ps text = Some m \<Longrightarrow> \<forall>p \<in> set ps. 1 \<le> min_len p \<Longrightarrow>
   (\<exists>a b. text = a @ m @ b) \<and> m \<noteq> []"
proof (induction ps)
  case Nil
  then show ?case by simp
next
  case (Cons p ps)
  show ?case
  proof (cases "re_search U p text")
    case None
    with Cons show ?thesis by simp
  next
    case (Some m')
    with Cons.prems(1) have "m' = m" by simp
    with Some re_search_occurs[of U p "text" m] Cons.prems(2) show ?thesis
      by (cases m) auto
  qed
qed

lemma deadline_patterns_consume: "\<forall>p \<in> set deadline_patterns. 1 \<le> min_len p"
  by (simp add: deadline_patterns_def lit_def cp_def)

lemma fragment_occurs:
  "first_match U deadline_patterns text = Some frag \<Longrightarrow> (\<exists>a b. text = a @ frag @ b) \<and> frag \<noteq> []"
  by (rule first_match_occurs[OF _ deadline_patterns_consume])

subsection \<open>Replacement\<close>

lemma replace_absent:
  "old \<noteq> [] \<Longrightarrow> \<not> contains old s \<Longrightarrow> py_replace old new s = s"
proof (induction s)
  case Nil
  then show ?case by (simp add: py_replace.simps)
next
  case (Cons c cs)
  then have "\<not> prefix old (c # cs)" "\<not> contains old cs" by simp_all
  with Cons show ?case by (subst py_replace.simps) simp
qed

lemma replace_at_occurrence:
  "old \<noteq> [] \<Longrightarrow> py_replace old new (old @ b) = new @ py_replace old new b"
  by (subst py_replace.simps) simp

lemma prefix_too_long:
  assumes "old \<noteq> []" "a \<noteq> []" "prefix old (a @ old @ b)"
  shows "prefix old (a @ butlast old)"
proof -
  have len: "length old \<le> length (a @ butlast old)" using assms(1,2)
    by (cases a) (simp_all add: Suc_leI)
  from assms(3) have "old = take (length old) (a @ old @ b)"
    by (metis append_eq_conv_conj prefix_def)
  also have "a @ old @ b = (a @ butlast old) @ ([last old] @ b)"
    using assms(1) by simp
  also have "take (length old) \<dots> = take (length old) (a @ butlast old)"
    using len by (simp del: append_assoc)
  finally have "old = take (length old) (a @ butlast old)" .
  then show ?thesis by (metis take_is_prefix)
qed

lemma replace_first_occurrence:
  "old \<noteq> [] \<Longrightarrow> \<not> contains old (a @ butlast old) \<Longrightarrow>
   py_replace old new (a @ old @ b) = a @ new @ py_replace old new b"
proof (induction a)
  case Nil
  then show ?case by (simp add: replace_at_occurrence)
next
  case (Cons c a)
  from Cons.prems(2) have np: "\<not> prefix old ((c # a) @ butlast old)"
    and nc: "\<not> contains old (a @ butlast old)" by simp_all
  have "\<not> prefix old ((c # a) @ old @ b)"
    using prefix_too_long[OF Cons.prems(1), of "c # a" b] np by blast
  then have "py_replace old new ((c # a) @ old @ b) = c # py_replace old new (a @ old @ b)"
    using Cons.prems(1) by (subst py_replace.simps) simp
  with Cons.IH[OF Cons.prems(1) nc] show ?case by simp
qed

subsection \<open>Splitting at a character\<close>

lemma split_on_nonempty: "split_on sep s \<noteq> []"
  by (induction s) (auto split: list.splits)

lemma split_on_Cons:
  "split_on sep (c # cs) =
     (if c = sep then [] # split_on sep cs
      else (c # hd (split_on sep cs)) # tl (split_on sep cs))"
  using split_on_nonempty[of sep cs] by (cases "split_on sep cs") simp_all

lemma split_on_hd: "hd (split_on sep s) = takeWhile (\<lambda>c. c \<noteq> sep) s"
  by (induction s) (simp_all add: split_on_Cons del: split_on.simps(2))

lemma split_on_tl: "(tl (split_on sep s) \<noteq> []) = (sep \<in> set s)"
proof (induction s)
  case Nil
  then show ?case by simp
next
  case (Cons c cs)
  show ?case
  proof (cases "c = sep")
    case True
    then show ?thesis by (simp add: split_on_nonempty)
  next
    case False
    with Cons show ?thesis by (simp add: split_on_Cons del: split_on.simps(2))
  qed
qed

lemma split_on_length: "(1 < length (split_on sep s)) = (sep \<in> set s)"
proof -
  obtain p ps where sp: "split_on sep s = p # ps"
    using split_on_nonempty[of sep s] by (cases "split_on sep s") auto
  then have "(1 < length (split_on sep s)) = (tl (split_on sep s) \<noteq> [])" by simp
  then show ?thesis by (simp only: split_on_tl)
qed

lemma join_split_on: "join [sep] (split_on sep s) = s"
proof (induction s)
  case Nil
  then show ?case by simp
next
  case (Cons c cs)
  obtain p ps where sp: "split_on sep cs = p # ps"
    using split_on_nonempty[of sep cs] by (cases "split_on sep cs") auto
  show ?case
  proof (cases "c = sep")
    case True
    with Cons sp show ?thesis by simp
  next
    case False
    with Cons sp show ?thesis by (cases ps) simp_all
  qed
qed

lemma join_tl_split_on:
  "sep \<in> set s \<Longrightarrow> join [sep] (tl (split_on sep s)) = tl (dropWhile (\<lambda>c. c \<noteq> sep) s)"
proof (induction s)
  case Nil
  then show ?case by simp
next
  case (Cons c cs)
  show ?case
  proof (cases "c = sep")
    case True
    then show ?thesis by (simp add: join_split_on)
  next
    case False
    with Cons show ?thesis by (simp add: split_on_Cons del: split_on.simps(2))
  qed
qed

lemma title_description_eq:
  "title_description r =
     (if newline \<in> set r
      then (py_strip (takeWhile (\<lambda>c. c \<noteq> newline) r),
            Some (py_strip (tl (dropWhile (\<lambda>c. c \<noteq> newline) r))))
      else if 46 \<in> set r
      then (py_strip (takeWhile (\<lambda>c. c \<noteq> 46) r),
            Some (py_strip (tl (dropWhile (\<lambda>c. c \<noteq> 46) r))))
      else (py_strip r, None))"
proof -
  have t: "newline \<notin> set r \<Longrightarrow> takeWhile (\<lambda>c. c \<noteq> newline) r = r"
    by (induction r) auto
  show ?thesis
    unfolding title_description_def Let_def split_on_length split_on_hd
    by (simp add: join_tl_split_on t)
qed

subsection \<open>The first integer of a fragment\<close>

lemma digits_residuals_empty:
  "(residuals U (Rep Digit 1 None) s = []) = (takeWhile (py_isdecimal U) s = [])"
proof -
  have "in_class U Digit = py_isdecimal U" by (rule ext) simp
  then show ?thesis by (cases "takeWhile (py_isdecimal U) s") (simp_all add: rep_counts_def Let_def)
qed

lemma digits_residuals_hd:
  assumes "takeWhile (py_isdecimal U) s \<noteq> []"
  shows "hd (residuals U (Rep Digit 1 None) s) = dropWhile (py_isdecimal U) s"
proof -
  have c: "in_class U Digit = py_isdecimal U" by (rule ext) simp
  let ?n = "length (takeWhile (py_isdecimal U) s)"
  have n: "1 \<le> ?n" using assms by (cases "takeWhile (py_isdecimal U) s") simp_all
  then have "[1 ..< Suc ?n] = [1 ..< ?n] @ [?n]" by simp
  then have "rev [1 ..< Suc ?n] = ?n # rev [1 ..< ?n]" by simp
  then have "hd (residuals U (Rep Digit 1 None) s) = drop ?n s"
    by (simp add: rep_counts_def Let_def c)
  then show ?thesis by (simp add: dropWhile_eq_drop)
qed

lemma search_digits:
  "re_search U (Rep Digit 1 None) s =
     (if \<exists>c \<in> set s. py_isdecimal U c
      then Some (takeWhile (py_isdecimal U) (dropWhile (\<lambda>c. \<not> py_isdecimal U c) s))
      else None)"
proof (induction s)
  case Nil
  have "residuals U (Rep Digit 1 None) [] = []"
    using digits_residuals_empty[of U "[]"] by simp
  then show ?case by simp
next
  case (Cons c cs)
  show ?case
  proof (cases "py_isdecimal U c")
    case False
    then have "residuals U (Rep Digit 1 None) (c # cs) = []"
      using digits_residuals_empty[of U "c # cs"] by simp
    with False Cons show ?thesis by simp
  next
    case True
    then have ne: "takeWhile (py_isdecimal U) (c # cs) \<noteq> []" by simp
    then have r: "residuals U (Rep Digit 1 None) (c # cs) \<noteq> []"
      by (simp only: digits_residuals_empty not_False_eq_True)
    then obtain rest rs where rr: "residuals U (Rep Digit 1 None) (c # cs) = rest # rs"
      by (cases "residuals U (Rep Digit 1 None) (c # cs)") auto
    with digits_residuals_hd[OF ne] have rest: "rest = dropWhile (py_isdecimal U) (c # cs)" by simp
    have "length (takeWhile (py_isdecimal U) (c # cs)) + length (dropWhile (py_isdecimal U) (c # cs))
          = length (c # cs)"
      by (simp only: length_append[symmetric] takeWhile_dropWhile_id)
    then have "length (c # cs) - length rest = length (takeWhile (py_isdecimal U) (c # cs))"
      unfolding rest by linarith
    then have "take (length (c # cs) - length rest) (c # cs) = takeWhile (py_isdecimal U) (c # cs)"
      by (simp only: takeWhile_eq_take[symmetric])
    then have "re_search U (Rep Digit 1 None) (c # cs) = Some (takeWhile (py_isdecimal U) (c # cs))"
      using rr by simp
    with True show ?thesis by simp
  qed
qed

section \<open>Claims about the extractor\<close>

lemma two_tomorrows_match:
  "first_match ex_ucd deadline_patterns (cp ''call Bob tomorrow re tomorrow's demo'')
   = Some (cp ''tomorrow'')"
  by code_simp

lemma two_tomorrows_remainder:
  "remainder ex_ucd (cp ''call Bob tomorrow re tomorrow's demo'') = cp ''call Bob  re 's demo''"
  by code_simp

lemma wide_space_match:
  "first_match ex_ucd deadline_patterns (cp ''Buy milk tomorrow'' @ [12288])
   = Some (cp ''tomorrow'')"
  by code_simp

lemma wide_space_remainder:
  "py_strip (py_replace (cp ''tomorrow'') [] (cp ''Buy milk tomorrow'' @ [12288]))
   = cp ''Buy milk''"
  by code_simp

lemma nbsp_match:
  "first_match ex_ucd deadline_patterns (cp ''pay due'' @ [160] @ cp ''friday'')
   = Some (cp ''due'' @ [160] @ cp ''friday'')"
  by code_simp

lemma nbsp_remainder:
  "py_strip (py_replace (cp ''due'' @ [160] @ cp ''friday'') []
      (cp ''pay due'' @ [160] @ cp ''friday'')) = cp ''pay''"
  by code_simp

lemma long_s_match:
  "first_match ex_ucd deadline_patterns ([383] @ cp ''unday plan'')
   = Some ([383] @ cp ''unday'')"
  by code_simp

lemma long_s_remainder:
  "py_strip (py_replace ([383] @ cp ''unday'') [] ([383] @ cp ''unday plan'')) = cp ''plan''"
  by code_simp

text \<open>
  Claim C4, as amended. When a deadline fragment is matched, the fragment is not empty
  and occurs in the raw text, and the remainder is the raw text with every occurrence of
  the fragment taken out, trimmed of white space: the occurrences are found from left
  to right, each search resuming behind the occurrence just removed (a text without the
  fragment is left as it is; up to and including the first occurrence the text loses
  that occurrence, and what follows is treated in the same way).
\<close>

theorem deadline_removal_amended:
  assumes "first_match U deadline_patterns text = Some frag"
  shows "frag \<noteq> [] \<and> (\<exists>a b. text = a @ frag @ b)
       \<and> remainder U text = py_strip (py_replace frag [] text)
       \<and> (\<forall>a b. \<not> contains frag (a @ butlast frag)
              \<longrightarrow> py_replace frag [] (a @ frag @ b) = a @ py_replace frag [] b)
       \<and> (\<forall>s. \<not> contains frag s \<longrightarrow> py_replace frag [] s = s)"
proof -
  from fragment_occurs[OF assms] have occ: "\<exists>a b. text = a @ frag @ b" and ne: "frag \<noteq> []"
    by simp_all
  have r: "remainder U text = py_strip (py_replace frag [] text)"
    using assms ne by (simp add: remainder_def)
  have f: "\<forall>a b. \<not> contains frag (a @ butlast frag)
              \<longrightarrow> py_replace frag [] (a @ frag @ b) = a @ py_replace frag [] b"
    using replace_first_occurrence[OF ne, of _ "[]"] by simp
  have n: "\<forall>s. \<not> contains frag s \<longrightarrow> py_replace frag [] s = s"
    using replace_absent[OF ne] by blast
  from ne occ r f n show ?thesis by blast
qed

theorem deadline_removal_amended_witness:
  "first_match ex_ucd deadline_patterns (cp ''call Bob tomorrow re tomorrow's demo'')
     = Some (cp ''tomorrow'')
   \<and> \<not> contains (cp ''tomorrow'') (cp ''call Bob '' @ butlast (cp ''tomorrow''))
   \<and> \<not> contains (cp ''tomorrow'') (cp '' re '')
   \<and> remainder ex_ucd (cp ''call Bob tomorrow re tomorrow's demo'')
       = py_strip (py_replace (cp ''tomorrow'') [] (cp ''call Bob tomorrow re tomorrow's demo''))
   \<and> py_replace (cp ''tomorrow'') []
         (cp ''call Bob '' @ cp ''tomorrow'' @ cp '' re tomorrow's demo'')
       = cp ''call Bob '' @ py_replace (cp ''tomorrow'') [] (cp '' re tomorrow's demo'')
   \<and> py_replace (cp ''tomorrow'') [] (cp '' re '') = cp '' re ''
   \<and> first_match ex_ucd deadline_patterns (cp ''Buy milk tomorrow'' @ [12288])
       = Some (cp ''tomorrow'')
   \<and> remainder ex_ucd (cp ''Buy milk tomorrow'' @ [12288]) = cp ''Buy milk''
   \<and> first_match ex_ucd deadline_patterns (cp ''pay due'' @ [160] @ cp ''friday'')
       = Some (cp ''due'' @ [160] @ cp ''friday'')
   \<and> remainder ex_ucd (cp ''pay due'' @ [160] @ cp ''friday'') = cp ''pay''
   \<and> first_match ex_ucd deadline_patterns ([383] @ cp ''unday plan'')
       = Some ([383] @ cp ''unday'')
   \<and> remainder ex_ucd ([383] @ cp ''unday plan'') = cp ''plan''"
proof -
  have a: "\<not> contains (cp ''tomorrow'') (cp ''call Bob '' @ butlast (cp ''tomorrow''))"
    by code_simp
  have b: "\<not> contains (cp ''tomorrow'') (cp '' re '')" by code_simp
  note A = deadline_removal_amended[OF two_tomorrows_match]
  note B = deadline_removal_amended[OF wide_space_match]
  note C = deadline_removal_amended[OF nbsp_match]
  have 1: "remainder ex_ucd (cp ''call Bob tomorrow re tomorrow's demo'')
       = py_strip (py_replace (cp ''tomorrow'') [] (cp ''call Bob tomorrow re tomorrow's demo''))"
    using A by blast
  have 2: "py_replace (cp ''tomorrow'') []
         (cp ''call Bob '' @ cp ''tomorrow'' @ cp '' re tomorrow's demo'')
       = cp ''call Bob '' @ py_replace (cp ''tomorrow'') [] (cp '' re tomorrow's demo'')"
    using A a by blast
  have 3: "py_replace (cp ''tomorrow'') [] (cp '' re '') = cp '' re ''"
    using A b by blast
  have 4: "remainder ex_ucd (cp ''Buy milk tomorrow'' @ [12288]) = cp ''Buy milk''"
    using B wide_space_remainder by simp
  have 5: "remainder ex_ucd (cp ''pay due'' @ [160] @ cp ''friday'') = cp ''pay''"
    using C nbsp_remainder by simp
  note D = deadline_removal_amended[OF long_s_match]
  have 6: "remainder ex_ucd ([383] @ cp ''unday plan'') = cp ''plan''"
    using D long_s_remainder by simp
  show ?thesis
    using two_tomorrows_match wide_space_match nbsp_match long_s_match a b 1 2 3 4 5 6
    by blast
qed

text \<open>
  Claim C4 as it is stated fails: in \<open>call Bob tomorrow re tomorrow's demo\<close> the fragment is
  \<open>tomorrow\<close>, and the remainder has lost both occurrences, whereas the removal of the
  first occurrence alone would keep the second.
\<close>

theorem deadline_removal_counterexample:
  "first_match ex_ucd deadline_patterns (cp ''call Bob tomorrow re tomorrow's demo'')
     = Some (cp ''tomorrow'')
   \<and> remainder ex_ucd (cp ''call Bob tomorrow re tomorrow's demo'')
       = cp ''call Bob  re 's demo''
   \<and> py_strip (spec_remove_first (cp ''tomorrow'') (cp ''call Bob tomorrow re tomorrow's demo''))
       = cp ''call Bob  re tomorrow's demo''
   \<and> \<not> contains (cp ''tomorrow'')
         (remainder ex_ucd (cp ''call Bob tomorrow re tomorrow's demo''))"
proof -
  have 1: "py_strip (spec_remove_first (cp ''tomorrow'')
              (cp ''call Bob tomorrow re tomorrow's demo''))
       = cp ''call Bob  re tomorrow's demo''" by code_simp
  have 2: "\<not> contains (cp ''tomorrow'') (cp ''call Bob  re 's demo'')" by code_simp
  show ?thesis using two_tomorrows_match 1 2 unfolding two_tomorrows_remainder by blast
qed

lemma parse_two_lines:
  "parse_natural_language (ex_env (cp ''0a1b2c3d'')) (cp ''a b'' @ [10, 160] @ cp ''c'')
   = \<lparr>data_title = cp ''a b'', data_description = Some (cp ''c''), data_deadline = None\<rparr>"
proof -
  have 1: "first_match ex_ucd deadline_patterns (cp ''a b'' @ [10, 160] @ cp ''c'') = None"
    by code_simp
  have 2: "title_description (cp ''a b'' @ [10, 160] @ cp ''c'') = (cp ''a b'', Some (cp ''c''))"
    by code_simp
  have 3: "cp ''a b'' \<noteq> []" by (simp add: cp_def)
  show ?thesis
    by (simp only: parse_natural_language_def remainder_def ex_env_simps 1 2 Let_def
        option.case prod.case 3 if_True not_False_eq_True)
qed

lemma parse_two_sentences:
  "parse_natural_language (ex_env (cp ''0a1b2c3d''))
     ([31] @ cp '' Plan. '' @ [8195] @ cp ''ship it'' @ [8232])
   = \<lparr>data_title = cp ''Plan'', data_description = Some (cp ''ship it''),
       data_deadline = None\<rparr>"
proof -
  have 1: "first_match ex_ucd deadline_patterns
             ([31] @ cp '' Plan. '' @ [8195] @ cp ''ship it'' @ [8232]) = None"
    by code_simp
  have 2: "title_description ([31] @ cp '' Plan. '' @ [8195] @ cp ''ship it'' @ [8232])
           = (cp ''Plan'', Some (cp ''ship it''))"
    by code_simp
  have 3: "cp ''Plan'' \<noteq> []" by (simp add: cp_def)
  show ?thesis
    by (simp only: parse_natural_language_def remainder_def ex_env_simps 1 2 Let_def
        option.case prod.case 3 if_True not_False_eq_True)
qed

text \<open>
  Claim C5, as amended. The extractor cuts the remainder at its first newline (empty
  lines are lines like the others) or, when there is no newline, at its first period, or
  not at all when there is neither. The title is the piece before the cut, trimmed of
  white space, and the description is what follows the cut, trimmed (absent when there
  is no cut). When that title is empty the title is the whole remainder instead: so a
  remainder that begins with a blank line has the whole remainder as its title, not its
  first non-empty line. Two examples: the line \<open>a b\<close> followed by a line made of a
  no-break space and \<open>c\<close> has title \<open>a b\<close> and description \<open>c\<close>; a text with one period,
  \<open>Plan\<close> before it and \<open>ship it\<close> behind it, each among white space of several kinds,
  has title \<open>Plan\<close> and description \<open>ship it\<close>.
\<close>

theorem title_rule_amended:
  "(let r = remainder (unicode e) text;
        td = parse_natural_language e text;
        first = (if 10 \<in> set r then takeWhile (\<lambda>c. c \<noteq> 10) r
                 else if 46 \<in> set r then takeWhile (\<lambda>c. c \<noteq> 46) r
                 else r)
    in data_title td = (if py_strip first = [] then r else py_strip first)
       \<and> data_description td =
           (if 10 \<in> set r
            then Some (py_strip (tl (dropWhile (\<lambda>c. c \<noteq> 10) r)))
            else if 46 \<in> set r
            then Some (py_strip (tl (dropWhile (\<lambda>c. c \<noteq> 46) r)))
            else None))
   \<and> parse_natural_language (ex_env (cp ''0a1b2c3d'')) (cp ''a b'' @ [10, 160] @ cp ''c'')
       = \<lparr>data_title = cp ''a b'', data_description = Some (cp ''c''),
           data_deadline = None\<rparr>
   \<and> parse_natural_language (ex_env (cp ''0a1b2c3d''))
         ([31] @ cp '' Plan. '' @ [8195] @ cp ''ship it'' @ [8232])
       = \<lparr>data_title = cp ''Plan'', data_description = Some (cp ''ship it''),
           data_deadline = None\<rparr>"
proof (intro conjI)
  show "let r = remainder (unicode e) text;
        td = parse_natural_language e text;
        first = (if 10 \<in> set r then takeWhile (\<lambda>c. c \<noteq> 10) r
                 else if 46 \<in> set r then takeWhile (\<lambda>c. c \<noteq> 46) r
                 else r)
    in data_title td = (if py_strip first = [] then r else py_strip first)
       \<and> data_description td =
           (if 10 \<in> set r
            then Some (py_strip (tl (dropWhile (\<lambda>c. c \<noteq> 10) r)))
            else if 46 \<in> set r
            then Some (py_strip (tl (dropWhile (\<lambda>c. c \<noteq> 46) r)))
            else None)"
    by (simp add: parse_natural_language_def title_description_eq Let_def newline_def)
qed (rule parse_two_lines parse_two_sentences)+

text \<open>
  Claim C5 as it is stated fails: for the text made of a blank line followed by the line
  \<open>Buy milk\<close> (no deadline in it) the title is the whole text, newline included, and not
  the first non-empty line \<open>Buy milk\<close>, which becomes the description.
\<close>

theorem title_rule_counterexample:
  "remainder ex_ucd (10 # cp ''Buy milk'') = 10 # cp ''Buy milk''
   \<and> data_title (parse_natural_language (ex_env (cp ''0a1b2c3d'')) (10 # cp ''Buy milk''))
       = 10 # cp ''Buy milk''
   \<and> data_title (parse_natural_language (ex_env (cp ''0a1b2c3d'')) (10 # cp ''Buy milk''))
       \<noteq> cp ''Buy milk''
   \<and> data_description (parse_natural_language (ex_env (cp ''0a1b2c3d''))
         (10 # cp ''Buy milk'')) = Some (cp ''Buy milk'')"
proof -
  have 1: "first_match ex_ucd deadline_patterns (10 # cp ''Buy milk'') = None" by code_simp
  have 2: "title_description (10 # cp ''Buy milk'') = ([], Some (cp ''Buy milk''))"
    by code_simp
  have 3: "remainder ex_ucd (10 # cp ''Buy milk'') = 10 # cp ''Buy milk''"
    by (simp add: remainder_def 1)
  have 4: "10 # cp ''Buy milk'' \<noteq> cp ''Buy milk''" by (simp add: cp_def)
  have "parse_natural_language (ex_env (cp ''0a1b2c3d'')) (10 # cp ''Buy milk'')
      = \<lparr>data_title = 10 # cp ''Buy milk'', data_description = Some (cp ''Buy milk''),
          data_deadline = None\<rparr>"
    by (simp only: parse_natural_language_def ex_env_simps 1 2 3 Let_def
        option.case prod.case if_False not_True_eq_False simp_thms)
  then show ?thesis using 3 4 by simp
qed

lemma match_none: "first_match ex_ucd deadline_patterns (cp ''Buy milk'') = None"
  by code_simp

lemma match_by_tomorrow:
  "first_match ex_ucd deadline_patterns (cp ''Review proposal by tomorrow'')
   = Some (cp ''by tomorrow'')"
  by code_simp

lemma match_today:
  "first_match ex_ucd deadline_patterns (cp ''ship TODAY'') = Some (cp ''TODAY'')"
  by code_simp

lemma match_next_week:
  "first_match ex_ucd deadline_patterns (cp ''meet next weeK'') = Some (cp ''next weeK'')"
  by code_simp

lemma match_next_month:
  "first_match ex_ucd deadline_patterns (cp ''plan next month'') = Some (cp ''next month'')"
  by code_simp

lemma match_in_12_days:
  "first_match ex_ucd deadline_patterns (cp ''Submit report in 12'' @ [160] @ cp ''days'')
   = Some (cp ''in 12'' @ [160] @ cp ''days'')"
  by code_simp

lemma match_in_3_days:
  "first_match ex_ucd deadline_patterns (cp ''Submit report in '' @ [1635] @ cp '' days'')
   = Some (cp ''in '' @ [1635] @ cp '' days'')"
  by code_simp

lemma match_kelvin:
  "first_match ex_ucd deadline_patterns (cp ''meet next wee'' @ [8490])
   = Some (cp ''next wee'' @ [8490])"
  by code_simp

lemma match_dotted_i:
  "first_match ex_ucd deadline_patterns (cp ''pay '' @ [304] @ cp ''n 3 days'')
   = Some ([304] @ cp ''n 3 days'')"
  by code_simp

lemma match_in_many_days:
  "first_match ex_ucd deadline_patterns (cp ''Pay rent in 9999999 days'')
   = Some (cp ''in 9999999 days'')"
  by code_simp

text \<open>
  Claim C6, as amended. With no fragment matched there is no deadline. Otherwise the
  fragment, in lower case, is tested in this order: if it contains \<open>tomorrow\<close> the deadline
  is now + 1 day; else if it contains \<open>today\<close>, today at 23:59 (seconds kept); else if
  \<open>next week\<close>, now + 7 days; else if \<open>next month\<close>, now + 30 days; else if it contains
  both \<open>in\<close> and \<open>day\<close>, now + N days with N the first integer in the fragment (its first
  run of decimal digits), and no deadline when the fragment has no digit or the run has
  more digits than \<open>int\<close> converts; any other fragment goes to the date parser of the
  library, whose failure gives no deadline. Adding days keeps the time of day and gives
  no deadline, with no error, when the date would lie after 9999-12-31 (ordinal 3652059)
  or the number of days exceeds 999999999.
\<close>

theorem deadline_resolution_amended:
  "(first_match (unicode e) deadline_patterns text = None
      \<longrightarrow> data_deadline (parse_natural_language e text) = None)
   \<and> (first_match (unicode e) deadline_patterns text = Some frag
      \<longrightarrow> data_deadline (parse_natural_language e text) =
           (if contains (cp ''tomorrow'') (py_lower (unicode e) frag) then add_days (now e) 1
            else if contains (cp ''today'') (py_lower (unicode e) frag)
              then Some ((now e)\<lparr>hour := 23, minute := 59\<rparr>)
            else if contains (cp ''next week'') (py_lower (unicode e) frag)
              then add_days (now e) 7
            else if contains (cp ''next month'') (py_lower (unicode e) frag)
              then add_days (now e) 30
            else if contains (cp ''in'') (py_lower (unicode e) frag)
                    \<and> contains (cp ''day'') (py_lower (unicode e) frag)
              then (if (\<exists>c \<in> set frag. py_isdecimal (unicode e) c)
                       \<and> \<not> (0 < int_max_str_digits e
                             \<and> int_max_str_digits e
                                 < length (takeWhile (py_isdecimal (unicode e))
                                     (dropWhile (\<lambda>c. \<not> py_isdecimal (unicode e) c) frag)))
                    then add_days (now e)
                           (int_of_digits (unicode e)
                              (takeWhile (py_isdecimal (unicode e))
                                 (dropWhile (\<lambda>c. \<not> py_isdecimal (unicode e) c) frag)))
                    else None)
            else dateutil_parse e frag))
   \<and> add_days d n =
         (if n \<le> 999999999 \<and> ordinal d + n \<le> 3652059
          then Some \<lparr>ordinal = ordinal d + n, hour = hour d, minute = minute d,
                     second = second d, microsecond = microsecond d\<rparr>
          else None)"
proof (intro conjI impI)
  assume "first_match (unicode e) deadline_patterns text = None"
  then show "data_deadline (parse_natural_language e text) = None"
    by (simp add: parse_natural_language_def Let_def split: prod.splits)
next
  assume "first_match (unicode e) deadline_patterns text = Some frag"
  then have "data_deadline (parse_natural_language e text) = resolve_deadline e frag"
    by (simp add: parse_natural_language_def Let_def split: prod.splits)
  then show "data_deadline (parse_natural_language e text) =
           (if contains (cp ''tomorrow'') (py_lower (unicode e) frag) then add_days (now e) 1
            else if contains (cp ''today'') (py_lower (unicode e) frag)
              then Some ((now e)\<lparr>hour := 23, minute := 59\<rparr>)
            else if contains (cp ''next week'') (py_lower (unicode e) frag)
              then add_days (now e) 7
            else if contains (cp ''next month'') (py_lower (unicode e) frag)
              then add_days (now e) 30
            else if contains (cp ''in'') (py_lower (unicode e) frag)
                    \<and> contains (cp ''day'') (py_lower (unicode e) frag)
              then (if (\<exists>c \<in> set frag. py_isdecimal (unicode e) c)
                       \<and> \<not> (0 < int_max_str_digits e
                             \<and> int_max_str_digits e
                                 < length (takeWhile (py_isdecimal (unicode e))
                                     (dropWhile (\<lambda>c. \<not> py_isdecimal (unicode e) c) frag)))
                    then add_days (now e)
                           (int_of_digits (unicode e)
                              (takeWhile (py_isdecimal (unicode e))
                                 (dropWhile (\<lambda>c. \<not> py_isdecimal (unicode e) c) frag)))
                    else None)
            else dateutil_parse e frag)"
    by (simp only: resolve_deadline_def Let_def search_digits)
       (simp split: if_splits)
next
  show "add_days d n =
         (if n \<le> 999999999 \<and> ordinal d + n \<le> 3652059
          then Some \<lparr>ordinal = ordinal d + n, hour = hour d, minute = minute d,
                     second = second d, microsecond = microsecond d\<rparr>
          else None)"
    by (cases d) (simp add: add_days_def max_ordinal_def)
qed

theorem deadline_resolution_amended_witness:
  "first_match ex_ucd deadline_patterns (cp ''Buy milk'') = None
   \<and> data_deadline (parse_natural_language (ex_env (cp ''0a1b2c3d'')) (cp ''Buy milk'')) = None
   \<and> first_match ex_ucd deadline_patterns (cp ''Review proposal by tomorrow'')
       = Some (cp ''by tomorrow'')
   \<and> data_deadline (parse_natural_language (ex_env (cp ''0a1b2c3d''))
         (cp ''Review proposal by tomorrow''))
       = Some \<lparr>ordinal = 738887, hour = 9, minute = 30, second = 15, microsecond = 0\<rparr>
   \<and> first_match ex_ucd deadline_patterns (cp ''ship TODAY'') = Some (cp ''TODAY'')
   \<and> data_deadline (parse_natural_language (ex_env (cp ''0a1b2c3d'')) (cp ''ship TODAY''))
       = Some \<lparr>ordinal = 738886, hour = 23, minute = 59, second = 15, microsecond = 0\<rparr>
   \<and> first_match ex_ucd deadline_patterns (cp ''meet next weeK'') = Some (cp ''next weeK'')
   \<and> data_deadline (parse_natural_language (ex_env (cp ''0a1b2c3d'')) (cp ''meet next weeK''))
       = Some \<lparr>ordinal = 738893, hour = 9, minute = 30, second = 15, microsecond = 0\<rparr>
   \<and> first_match ex_ucd deadline_patterns (cp ''plan next month'') = Some (cp ''next month'')
   \<and> data_deadline (parse_natural_language (ex_env (cp ''0a1b2c3d'')) (cp ''plan next month''))
       = Some \<lparr>ordinal = 738916, hour = 9, minute = 30, second = 15, microsecond = 0\<rparr>
   \<and> first_match ex_ucd deadline_patterns (cp ''Submit report in 12'' @ [160] @ cp ''days'')
       = Some (cp ''in 12'' @ [160] @ cp ''days'')
   \<and> data_deadline (parse_natural_language (ex_env (cp ''0a1b2c3d''))
         (cp ''Submit report in 12'' @ [160] @ cp ''days''))
       = Some \<lparr>ordinal = 738898, hour = 9, minute = 30, second = 15, microsecond = 0\<rparr>
   \<and> first_match ex_ucd deadline_patterns (cp ''Submit report in '' @ [1635] @ cp '' days'')
       = Some (cp ''in '' @ [1635] @ cp '' days'')
   \<and> data_deadline (parse_natural_language (ex_env (cp ''0a1b2c3d''))
         (cp ''Submit report in '' @ [1635] @ cp '' days''))
       = Some \<lparr>ordinal = 738889, hour = 9, minute = 30, second = 15, microsecond = 0\<rparr>
   \<and> first_match ex_ucd deadline_patterns (cp ''meet next wee'' @ [8490])
       = Some (cp ''next wee'' @ [8490])
   \<and> data_deadline (parse_natural_language (ex_env (cp ''0a1b2c3d''))
         (cp ''meet next wee'' @ [8490]))
       = Some \<lparr>ordinal = 738893, hour = 9, minute = 30, second = 15, microsecond = 0\<rparr>
   \<and> first_match ex_ucd deadline_patterns (cp ''pay '' @ [304] @ cp ''n 3 days'')
       = Some ([304] @ cp ''n 3 days'')
   \<and> py_lower ex_ucd ([304] @ cp ''n 3 days'') = [105, 775] @ cp ''n 3 days''
   \<and> data_deadline (parse_natural_language (ex_env (cp ''0a1b2c3d''))
         (cp ''pay '' @ [304] @ cp ''n 3 days''))
       = None"
proof -
  let ?e = "ex_env (cp ''0a1b2c3d'')"
  let ?R = "\<lambda>frag.
           (if contains (cp ''tomorrow'') (py_lower (unicode ?e) frag) then add_days (now ?e) 1
            else if contains (cp ''today'') (py_lower (unicode ?e) frag)
              then Some ((now ?e)\<lparr>hour := 23, minute := 59\<rparr>)
            else if contains (cp ''next week'') (py_lower (unicode ?e) frag)
              then add_days (now ?e) 7
            else if contains (cp ''next month'') (py_lower (unicode ?e) frag)
              then add_days (now ?e) 30
            else if contains (cp ''in'') (py_lower (unicode ?e) frag)
                    \<and> contains (cp ''day'') (py_lower (unicode ?e) frag)
              then (if (\<exists>c \<in> set frag. py_isdecimal (unicode ?e) c)
                       \<and> \<not> (0 < int_max_str_digits ?e
                             \<and> int_max_str_digits ?e
                                 < length (takeWhile (py_isdecimal (unicode ?e))
                                     (dropWhile (\<lambda>c. \<not> py_isdecimal (unicode ?e) c) frag)))
                    then add_days (now ?e)
                           (int_of_digits (unicode ?e)
                              (takeWhile (py_isdecimal (unicode ?e))
                                 (dropWhile (\<lambda>c. \<not> py_isdecimal (unicode ?e) c) frag)))
                    else None)
            else dateutil_parse ?e frag)"
  have u: "unicode ?e = ex_ucd" by (simp add: ex_env_simps)
  note T = deadline_resolution_amended[of ?e, unfolded u]
  have a: "data_deadline (parse_natural_language ?e (cp ''Buy milk'')) = None"
    using T[of "cp ''Buy milk''"] match_none by blast
  have vb: "?R (cp ''by tomorrow'')
      = Some \<lparr>ordinal = 738887, hour = 9, minute = 30, second = 15, microsecond = 0\<rparr>"
    by code_simp
  have b: "data_deadline (parse_natural_language ?e (cp ''Review proposal by tomorrow''))
       = Some \<lparr>ordinal = 738887, hour = 9, minute = 30, second = 15, microsecond = 0\<rparr>"
    using T[of "cp ''Review proposal by tomorrow''" "cp ''by tomorrow''"] match_by_tomorrow
      vb[unfolded u] by simp
  have vc: "?R (cp ''TODAY'')
      = Some \<lparr>ordinal = 738886, hour = 23, minute = 59, second = 15, microsecond = 0\<rparr>"
    by code_simp
  have c: "data_deadline (parse_natural_language ?e (cp ''ship TODAY''))
       = Some \<lparr>ordinal = 738886, hour = 23, minute = 59, second = 15, microsecond = 0\<rparr>"
    using T[of "cp ''ship TODAY''" "cp ''TODAY''"] match_today vc[unfolded u] by simp
  have vd: "?R (cp ''next weeK'')
      = Some \<lparr>ordinal = 738893, hour = 9, minute = 30, second = 15, microsecond = 0\<rparr>"
    by code_simp
  have d: "data_deadline (parse_natural_language ?e (cp ''meet next weeK''))
       = Some \<lparr>ordinal = 738893, hour = 9, minute = 30, second = 15, microsecond = 0\<rparr>"
    using T[of "cp ''meet next weeK''" "cp ''next weeK''"] match_next_week vd[unfolded u]
    by simp
  have ve: "?R (cp ''next month'')
      = Some \<lparr>ordinal = 738916, hour = 9, minute = 30, second = 15, microsecond = 0\<rparr>"
    by code_simp
  have e: "data_deadline (parse_natural_language ?e (cp ''plan next month''))
       = Some \<lparr>ordinal = 738916, hour = 9, minute = 30, second = 15, microsecond = 0\<rparr>"
    using T[of "cp ''plan next month''" "cp ''next month''"] match_next_month ve[unfolded u]
    by simp
  have vf: "?R (cp ''in 12'' @ [160] @ cp ''days'')
      = Some \<lparr>ordinal = 738898, hour = 9, minute = 30, second = 15, microsecond = 0\<rparr>"
    by code_simp
  have f: "data_deadline (parse_natural_language ?e
               (cp ''Submit report in 12'' @ [160] @ cp ''days''))
       = Some \<lparr>ordinal = 738898, hour = 9, minute = 30, second = 15, microsecond = 0\<rparr>"
    using T[of "cp ''Submit report in 12'' @ [160] @ cp ''days''"
            "cp ''in 12'' @ [160] @ cp ''days''"] match_in_12_days vf[unfolded u]
    by simp
  have vg: "?R (cp ''in '' @ [1635] @ cp '' days'')
      = Some \<lparr>ordinal = 738889, hour = 9, minute = 30, second = 15, microsecond = 0\<rparr>"
    by code_simp
  have g: "data_deadline (parse_natural_language ?e
               (cp ''Submit report in '' @ [1635] @ cp '' days''))
       = Some \<lparr>ordinal = 738889, hour = 9, minute = 30, second = 15, microsecond = 0\<rparr>"
    using T[of "cp ''Submit report in '' @ [1635] @ cp '' days''"
            "cp ''in '' @ [1635] @ cp '' days''"] match_in_3_days vg[unfolded u]
    by simp
  have vi: "?R (cp ''next wee'' @ [8490])
      = Some \<lparr>ordinal = 738893, hour = 9, minute = 30, second = 15, microsecond = 0\<rparr>"
    by code_simp
  have i: "data_deadline (parse_natural_language ?e (cp ''meet next wee'' @ [8490]))
       = Some \<lparr>ordinal = 738893, hour = 9, minute = 30, second = 15, microsecond = 0\<rparr>"
    using T[of "cp ''meet next wee'' @ [8490]" "cp ''next wee'' @ [8490]"] match_kelvin
      vi[unfolded u] by simp
  have vj: "?R ([304] @ cp ''n 3 days'') = None"
    by code_simp
  have lj: "py_lower ex_ucd ([304] @ cp ''n 3 days'') = [105, 775] @ cp ''n 3 days''"
    by code_simp
  have j: "data_deadline (parse_natural_language ?e (cp ''pay '' @ [304] @ cp ''n 3 days''))
       = None"
    using T[of "cp ''pay '' @ [304] @ cp ''n 3 days''" "[304] @ cp ''n 3 days''"]
      match_dotted_i vj[unfolded u] by simp
  have ab: "first_match ex_ucd deadline_patterns (cp ''Buy milk'') = None
      \<and> data_deadline (parse_natural_language ?e (cp ''Buy milk'')) = None
      \<and> first_match ex_ucd deadline_patterns (cp ''Review proposal by tomorrow'')
          = Some (cp ''by tomorrow'')
      \<and> data_deadline (parse_natural_language ?e (cp ''Review proposal by tomorrow''))
          = Some \<lparr>ordinal = 738887, hour = 9, minute = 30, second = 15, microsecond = 0\<rparr>"
    using a b match_none match_by_tomorrow by blast
  show ?thesis
    using ab c d e f g i j lj match_today match_next_week
      match_next_month match_in_12_days match_in_3_days match_kelvin match_dotted_i
    by blast
qed

text \<open>
  Claim C6 as it is stated fails: for \<open>Pay rent in 9999999 days\<close> the fragment is
  \<open>in 9999999 days\<close> and the deadline is absent, not now + 9999999 days, since that date
  lies after the last day of the calendar and the overflow is swallowed.
\<close>

theorem deadline_resolution_counterexample:
  "first_match ex_ucd deadline_patterns (cp ''Pay rent in 9999999 days'')
     = Some (cp ''in 9999999 days'')
   \<and> data_deadline (parse_natural_language (ex_env (cp ''0a1b2c3d''))
         (cp ''Pay rent in 9999999 days'')) = None
   \<and> ordinal (now (ex_env (cp ''0a1b2c3d''))) + 9999999 > max_ordinal"
proof -
  have 2: "resolve_deadline (ex_env (cp ''0a1b2c3d'')) (cp ''in 9999999 days'') = None"
    by code_simp
  have 3: "ordinal (now (ex_env (cp ''0a1b2c3d''))) + 9999999 > max_ordinal"
    by (simp add: ex_env_simps ex_now_def max_ordinal_def)
  have "data_deadline (parse_natural_language (ex_env (cp ''0a1b2c3d''))
          (cp ''Pay rent in 9999999 days'')) = None"
    by (simp add: parse_natural_language_def Let_def ex_env_simps match_in_many_days 2
        split: prod.splits)
  with match_in_many_days 3 show ?thesis by blast
qed

end
